theory Spec2Isabelle
  imports
    Complex_Main
    "HOL-Library.Char_ord"
    "HOL-Library.List_Lexorder"
    "HOL-Library.Product_Lexorder"
begin

section \<open>Python values as produced by \<open>json.load\<close>\<close>

text \<open>
  The validator works on the value trees that \<open>json.load\<close> returns: \<open>None\<close>, \<open>bool\<close>,
  \<open>int\<close>, \<open>float\<close>, \<open>str\<close>, \<open>list\<close> and \<open>dict\<close> with string keys. A dict is an
  association list read through \<open>map_of\<close>. A character of a \<open>string\<close> stands for a code
  point below 256. A float is its exact rational value, or one of the three special values
  that \<open>json.load\<close> accepts.
\<close>

datatype pyfloat = Finite rat | PosInf | NegInf | NaN

datatype json =
    JNull
  | JBool bool
  | JInt int
  | JFloat pyfloat
  | JStr string
  | JList "json list"
  | JObj "(string \<times> json) list"

type_synonym pydict = "(string \<times> json) list"

datatype py_error = AttributeError | TypeError

text \<open>\<open>d.get(k)\<close>, \<open>d.get(k, default)\<close> and \<open>k in d\<close> for a dict \<open>d\<close>.\<close>

definition dict_get :: "pydict \<Rightarrow> string \<Rightarrow> json" where
  "dict_get d k = (case map_of d k of None \<Rightarrow> JNull | Some v \<Rightarrow> v)"

definition dict_get_or :: "pydict \<Rightarrow> string \<Rightarrow> json \<Rightarrow> json" where
  "dict_get_or d k dflt = (case map_of d k of None \<Rightarrow> dflt | Some v \<Rightarrow> v)"

definition dict_has :: "pydict \<Rightarrow> string \<Rightarrow> bool" where
  "dict_has d k = (map_of d k \<noteq> None)"

text \<open>\<open>isinstance(x, str)\<close>, \<open>isinstance(x, list)\<close>, \<open>isinstance(x, dict)\<close>.\<close>

fun is_str :: "json \<Rightarrow> bool" where
  "is_str (JStr s) = True"
| "is_str _ = False"

fun is_list :: "json \<Rightarrow> bool" where
  "is_list (JList xs) = True"
| "is_list _ = False"

fun is_dict :: "json \<Rightarrow> bool" where
  "is_dict (JObj d) = True"
| "is_dict _ = False"

text \<open>
  Membership in a Python \<open>set\<close> hashes the value first. Lists and dicts are unhashable
  (\<open>TypeError\<close>); \<open>True\<close>, \<open>1\<close> and \<open>1.0\<close> hash and compare equal, so a hashable value is
  represented in a set by its key.
\<close>

datatype hkey = HNone | HNum rat | HPosInf | HNegInf | HNaN | HStr string

fun py_hash :: "json \<Rightarrow> py_error + hkey" where
  "py_hash JNull = Inr HNone"
| "py_hash (JBool b) = Inr (HNum (if b then 1 else 0))"
| "py_hash (JInt i) = Inr (HNum (of_int i))"
| "py_hash (JFloat (Finite r)) = Inr (HNum r)"
| "py_hash (JFloat PosInf) = Inr HPosInf"
| "py_hash (JFloat NegInf) = Inr HNegInf"
| "py_hash (JFloat NaN) = Inr HNaN"
| "py_hash (JStr s) = Inr (HStr s)"
| "py_hash (JList xs) = Inl TypeError"
| "py_hash (JObj d) = Inl TypeError"

text \<open>\<open>for item in x\<close>: the items of a list, the keys of a dict, the characters of a string.\<close>

fun py_iter :: "json \<Rightarrow> py_error + json list" where
  "py_iter (JList xs) = Inr xs"
| "py_iter (JObj d) = Inr (map JStr (remdups (map fst d)))"
| "py_iter (JStr s) = Inr (map (\<lambda>c. JStr [c]) s)"
| "py_iter _ = Inl TypeError"

text \<open>\<open>str.strip()\<close>: the whitespace code points below 256 are removed at both ends.\<close>

definition is_space :: "char \<Rightarrow> bool" where
  "is_space c = (of_char c \<in> {9, 10, 11, 12, 13, 28, 29, 30, 31, 32, 133, 160 :: nat})"

definition strip :: "string \<Rightarrow> string" where
  "strip s = rev (dropWhile is_space (rev (dropWhile is_space s)))"

text \<open>\<open>str(n)\<close> for an \<open>int\<close>.\<close>

fun str_nat :: "nat \<Rightarrow> string" where
  "str_nat n = (if n < 10 then [''0123456789'' ! n]
                else str_nat (n div 10) @ [''0123456789'' ! (n mod 10)])"

declare str_nat.simps [simp del]

definition str_int :: "int \<Rightarrow> string" where
  "str_int i = (if i < 0 then ''-'' @ str_nat (nat (- i)) else str_nat (nat i))"

text \<open>
  \<open>repr\<close> of an arbitrary value (quoting of strings, shortest float notation, nested
  containers) is a builtin of the interpreter: it is the parameter \<open>R\<close> of every function
  that formats a value. \<open>str(x)\<close>, which an f-string applies, is the string itself for a
  \<open>str\<close> and \<open>repr(x)\<close> otherwise; \<open>str\<close> of a list or a tuple joins the \<open>repr\<close>s of the
  items.
\<close>

definition py_str :: "(json \<Rightarrow> string) \<Rightarrow> json \<Rightarrow> string" where
  "py_str R v = (case v of JStr s \<Rightarrow> s | _ \<Rightarrow> R v)"

fun join :: "string \<Rightarrow> string list \<Rightarrow> string" where
  "join sep [] = []"
| "join sep [x] = x"
| "join sep (x # y # ys) = x @ sep @ join sep (y # ys)"

definition str_list :: "string list \<Rightarrow> string" where
  "str_list items = ''['' @ join '', '' items @ '']''"

definition str_tuple2 :: "string \<Rightarrow> string \<Rightarrow> string" where
  "str_tuple2 a b = ''('' @ a @ '', '' @ b @ '')''"

section \<open>CheckResult and Validator\<close>

record CheckResult =
  check_id :: string
  level :: json
  passed :: bool
  message :: string

text \<open>
  \<open>Validator.__init__\<close> takes the document and the checklist as \<open>Dict[str, Any]\<close>: both
  are dicts here, and everything below them is an arbitrary value.
\<close>

record validator =
  doc :: pydict
  checklist :: pydict
  check_defs :: "string \<rightharpoonup> pydict"
  results :: "CheckResult list"

text \<open>
  \<open>_index_checks\<close>: \<open>item.get\<close> exists only on a dict, so any other item raises
  \<open>AttributeError\<close>; a \<open>checks\<close> value that cannot be iterated raises \<open>TypeError\<close>.
\<close>

fun index_loop :: "json list \<Rightarrow> (string \<rightharpoonup> pydict) \<Rightarrow> py_error + (string \<rightharpoonup> pydict)" where
  "index_loop [] indexed = Inr indexed"
| "index_loop (item # rest) indexed =
     (case item of
        JObj d \<Rightarrow>
          (case dict_get d ''id'' of
             JStr cid \<Rightarrow> index_loop rest (indexed(cid \<mapsto> d))
           | _ \<Rightarrow> index_loop rest indexed)
      | _ \<Rightarrow> Inl AttributeError)"

definition index_checks :: "pydict \<Rightarrow> py_error + (string \<rightharpoonup> pydict)" where
  "index_checks cl =
     (case py_iter (dict_get_or cl ''checks'' (JList [])) of
        Inl e \<Rightarrow> Inl e
      | Inr items \<Rightarrow> index_loop items Map.empty)"

definition Validator_init :: "pydict \<Rightarrow> pydict \<Rightarrow> py_error + validator" where
  "Validator_init d cl =
     (case index_checks cl of
        Inl e \<Rightarrow> Inl e
      | Inr defs \<Rightarrow> Inr \<lparr>doc = d, checklist = cl, check_defs = defs, results = []\<rparr>)"

definition emit :: "string \<Rightarrow> bool \<Rightarrow> string \<Rightarrow> validator \<Rightarrow> validator" where
  "emit cid ok msg v =
     (let check_def = (case check_defs v cid of None \<Rightarrow> [] | Some d \<Rightarrow> d);
          lvl = dict_get_or check_def ''level'' (JStr ''INFO'')
      in v\<lparr>results := results v @
             [\<lparr>check_id = cid, level = lvl, passed = ok, message = msg\<rparr>]\<rparr>)"

section \<open>The rules\<close>

definition METHODS :: "string set" where
  "METHODS = {''GET'', ''POST'', ''PUT'', ''PATCH'', ''DELETE''}"

definition PARAM_LOCATIONS :: "string set" where
  "PARAM_LOCATIONS = {''path'', ''query'', ''body''}"

definition AUTH_TYPES :: "string set" where
  "AUTH_TYPES = {''none'', ''api_key'', ''bearer'', ''basic'', ''oauth2''}"

definition CONSTRAINT_FIELDS :: "string list" where
  "CONSTRAINT_FIELDS = [''minimum'', ''maximum'', ''min_length'', ''max_length'', ''pattern'', ''format'']"

text \<open>
  \<open>self.doc.get("endpoints", []) if isinstance(self.doc.get("endpoints"), list) else []\<close>,
  the first statement of every per-endpoint rule.
\<close>

definition endpoints_of :: "pydict \<Rightarrow> json list" where
  "endpoints_of d = (case dict_get d ''endpoints'' of JList eps \<Rightarrow> eps | _ \<Rightarrow> [])"

subsection \<open>Rule 1: top-level required fields\<close>

definition aiif_version_ok :: "pydict \<Rightarrow> bool" where
  "aiif_version_ok d = (case dict_get d ''aiif_version'' of JStr s \<Rightarrow> strip s \<noteq> [] | _ \<Rightarrow> False)"

definition top_level_missing :: "pydict \<Rightarrow> string list" where
  "top_level_missing d = filter (\<lambda>k. \<not> dict_has d k) [''aiif_version'', ''info'', ''endpoints'']"

definition top_level_details :: "pydict \<Rightarrow> string list" where
  "top_level_details d =
     top_level_missing d @
     (if \<not> aiif_version_ok d then [''aiif_version (must be non-empty string)''] else [])"

definition check_top_level_required_fields :: "(json \<Rightarrow> string) \<Rightarrow> validator \<Rightarrow> validator" where
  "check_top_level_required_fields R v =
     (let ok = (top_level_missing (doc v) = []
                \<and> aiif_version_ok (doc v)
                \<and> is_list (dict_get (doc v) ''endpoints'')
                \<and> is_dict (dict_get (doc v) ''info''));
          msg = (if ok then ''top-level required fields present''
                 else ''missing/invalid top-level fields: '' @
                      str_list (map (\<lambda>k. R (JStr k)) (top_level_details (doc v))))
      in emit ''impl.top_level.required_fields'' ok msg v)"

subsection \<open>Rule 2: endpoint uniqueness\<close>

type_synonym uniq_state =
  "string set \<times> string set \<times> (string \<times> string) set \<times> (string \<times> string) set"

definition uniq_step :: "uniq_state \<Rightarrow> json \<Rightarrow> uniq_state" where
  "uniq_step st ep =
     (case ep of
        JObj e \<Rightarrow>
          (case st of (names, dup_names, method_paths, dup_method_paths) \<Rightarrow>
             (let nm = (case dict_get e ''name'' of
                          JStr n \<Rightarrow> (insert n names, if n \<in> names then insert n dup_names else dup_names)
                        | _ \<Rightarrow> (names, dup_names));
                  mp = (case dict_get e ''method'' of
                          JStr m \<Rightarrow>
                            (case dict_get e ''path'' of
                               JStr p \<Rightarrow> (insert (m, p) method_paths,
                                          if (m, p) \<in> method_paths then insert (m, p) dup_method_paths
                                          else dup_method_paths)
                             | _ \<Rightarrow> (method_paths, dup_method_paths))
                        | _ \<Rightarrow> (method_paths, dup_method_paths))
              in (fst nm, snd nm, fst mp, snd mp)))
      | _ \<Rightarrow> st)"

definition check_endpoint_uniqueness :: "(json \<Rightarrow> string) \<Rightarrow> validator \<Rightarrow> validator" where
  "check_endpoint_uniqueness R v =
     (case foldl uniq_step ({}, {}, {}, {}) (endpoints_of (doc v)) of
        (names, dup_names, method_paths, dup_method_paths) \<Rightarrow>
          emit ''impl.method_path.unique'' (dup_method_paths = {})
            (if dup_method_paths = {} then ''(method,path) pairs are unique''
             else ''duplicate (method,path) pairs: '' @
                  str_list (map (\<lambda>(m, p). str_tuple2 (R (JStr m)) (R (JStr p)))
                               (sorted_list_of_set dup_method_paths)))
            (emit ''impl.endpoint_name.unique'' (dup_names = {})
               (if dup_names = {} then ''endpoint names are unique''
                else ''duplicate endpoint names: '' @
                     str_list (map (\<lambda>n. R (JStr n)) (sorted_list_of_set dup_names)))
               v))"

subsection \<open>Rule 3: params unique by (name, location)\<close>

text \<open>
  \<open>key in seen\<close> hashes the tuple, hence both components: an unhashable \<open>name\<close> or
  \<open>location\<close> raises \<open>TypeError\<close>.
\<close>

fun params_unique_loop ::
  "(json \<Rightarrow> string) \<Rightarrow> json \<Rightarrow> json list \<Rightarrow> (hkey \<times> hkey) set \<Rightarrow> string list
     \<Rightarrow> py_error + string list" where
  "params_unique_loop R ep_name [] seen violations = Inr violations"
| "params_unique_loop R ep_name (p # ps) seen violations =
     (case p of
        JObj pd \<Rightarrow>
          (case py_hash (dict_get pd ''name'') of
             Inl e \<Rightarrow> Inl e
           | Inr a \<Rightarrow>
               (case py_hash (dict_get pd ''location'') of
                  Inl e \<Rightarrow> Inl e
                | Inr b \<Rightarrow>
                    params_unique_loop R ep_name ps (insert (a, b) seen)
                      (if (a, b) \<in> seen
                       then violations @
                            [py_str R ep_name @ '':'' @
                             str_tuple2 (R (dict_get pd ''name'')) (R (dict_get pd ''location''))]
                       else violations)))
      | _ \<Rightarrow> params_unique_loop R ep_name ps seen violations)"

fun endpoints_unique_loop ::
  "(json \<Rightarrow> string) \<Rightarrow> json list \<Rightarrow> string list \<Rightarrow> py_error + string list" where
  "endpoints_unique_loop R [] violations = Inr violations"
| "endpoints_unique_loop R (ep # eps) violations =
     (case ep of
        JObj e \<Rightarrow>
          (case dict_get_or e ''params'' (JList []) of
             JList params \<Rightarrow>
               (case params_unique_loop R (dict_get_or e ''name'' (JStr ''<unknown>'')) params {} violations of
                  Inl err \<Rightarrow> Inl err
                | Inr violations' \<Rightarrow> endpoints_unique_loop R eps violations')
           | _ \<Rightarrow> endpoints_unique_loop R eps violations)
      | _ \<Rightarrow> endpoints_unique_loop R eps violations)"

definition check_params_uniqueness :: "(json \<Rightarrow> string) \<Rightarrow> validator \<Rightarrow> py_error + validator" where
  "check_params_uniqueness R v =
     (case endpoints_unique_loop R (endpoints_of (doc v)) [] of
        Inl e \<Rightarrow> Inl e
      | Inr violations \<Rightarrow>
          Inr (emit ''impl.params.unique_by_name_location'' (violations = [])
                 (if violations = [] then ''params are unique by (name,location)''
                  else ''duplicate params: '' @ str_list (map (\<lambda>s. R (JStr s)) violations))
                 v))"

subsection \<open>Rule 4: method values\<close>

fun method_loop :: "(json \<Rightarrow> string) \<Rightarrow> json list \<Rightarrow> string list \<Rightarrow> string list" where
  "method_loop R [] bad = bad"
| "method_loop R (ep # eps) bad =
     (case ep of
        JObj e \<Rightarrow>
          (let method = dict_get e ''method'';
               name = dict_get_or e ''name'' (JStr ''<unknown>'')
           in if (case method of JStr m \<Rightarrow> m \<notin> METHODS | _ \<Rightarrow> True)
              then method_loop R eps (bad @ [py_str R name @ '':'' @ py_str R method])
              else method_loop R eps bad)
      | _ \<Rightarrow> method_loop R eps bad)"

definition check_method_values :: "(json \<Rightarrow> string) \<Rightarrow> validator \<Rightarrow> validator" where
  "check_method_values R v =
     (let bad = method_loop R (endpoints_of (doc v)) []
      in if check_defs v ''impl.endpoint.method.allowed'' \<noteq> None
         then emit ''impl.endpoint.method.allowed'' (bad = [])
                (if bad = [] then ''all methods are allowed''
                 else ''invalid methods: '' @ str_list (map (\<lambda>s. R (JStr s)) bad))
                v
         else v)"

subsection \<open>Rule 5: param locations\<close>

text \<open>
  \<open>location not in PARAM_LOCATIONS\<close> is evaluated on the raw value, with no
  \<open>isinstance\<close> test before it: an unhashable location raises \<open>TypeError\<close>.
\<close>

fun location_params_loop ::
  "(json \<Rightarrow> string) \<Rightarrow> json \<Rightarrow> json list \<Rightarrow> string list \<Rightarrow> py_error + string list" where
  "location_params_loop R ep_name [] bad = Inr bad"
| "location_params_loop R ep_name (p # ps) bad =
     (case p of
        JObj pd \<Rightarrow>
          (let location = dict_get pd ''location'';
               pname = dict_get_or pd ''name'' (JStr ''<unknown>'')
           in case py_hash location of
                Inl e \<Rightarrow> Inl e
              | Inr k \<Rightarrow>
                  if k \<notin> HStr ` PARAM_LOCATIONS
                  then location_params_loop R ep_name ps
                         (bad @ [py_str R ep_name @ '':'' @ py_str R pname @ '':'' @ py_str R location])
                  else location_params_loop R ep_name ps bad)
      | _ \<Rightarrow> location_params_loop R ep_name ps bad)"

fun location_loop :: "(json \<Rightarrow> string) \<Rightarrow> json list \<Rightarrow> string list \<Rightarrow> py_error + string list" where
  "location_loop R [] bad = Inr bad"
| "location_loop R (ep # eps) bad =
     (case ep of
        JObj e \<Rightarrow>
          (case dict_get_or e ''params'' (JList []) of
             JList params \<Rightarrow>
               (case location_params_loop R (dict_get_or e ''name'' (JStr ''<unknown>'')) params bad of
                  Inl err \<Rightarrow> Inl err
                | Inr bad' \<Rightarrow> location_loop R eps bad')
           | _ \<Rightarrow> location_loop R eps bad)
      | _ \<Rightarrow> location_loop R eps bad)"

definition check_param_locations :: "(json \<Rightarrow> string) \<Rightarrow> validator \<Rightarrow> py_error + validator" where
  "check_param_locations R v =
     (case location_loop R (endpoints_of (doc v)) [] of
        Inl e \<Rightarrow> Inl e
      | Inr bad \<Rightarrow>
          Inr (if check_defs v ''impl.params.location.allowed'' \<noteq> None
               then emit ''impl.params.location.allowed'' (bad = [])
                      (if bad = [] then ''all parameter locations are valid''
                       else ''invalid parameter locations: '' @ str_list (map (\<lambda>s. R (JStr s)) bad))
                      v
               else v))"

subsection \<open>Rule 6: auth object\<close>

definition bearer_fields_ok :: "pydict \<Rightarrow> bool" where
  "bearer_fields_ok auth =
     (let has_instructions = (case dict_get auth ''instructions'' of
                                JList xs \<Rightarrow> length xs > 0 | _ \<Rightarrow> False);
          has_acquire = is_dict (dict_get auth ''acquire'');
          has_apply = is_dict (dict_get auth ''apply'')
      in has_instructions \<and> has_acquire \<and> has_apply)"

definition check_auth_object :: "(json \<Rightarrow> string) \<Rightarrow> validator \<Rightarrow> validator" where
  "check_auth_object R v =
     (case dict_get (doc v) ''auth'' of
        JNull \<Rightarrow> v
      | JObj auth \<Rightarrow>
          (let auth_type = dict_get auth ''type''
           in if (case auth_type of JStr t \<Rightarrow> t \<notin> AUTH_TYPES | _ \<Rightarrow> True)
              then emit ''impl.auth_flow.structured_fields'' False
                     (''auth.type invalid: '' @ py_str R auth_type) v
              else if auth_type = JStr ''bearer'' \<or> auth_type = JStr ''oauth2''
              then emit ''impl.auth_flow.structured_fields'' (bearer_fields_ok auth)
                     (if bearer_fields_ok auth
                      then ''bearer/oauth2 auth includes instructions+acquire+apply''
                      else ''bearer/oauth2 auth should include instructions, acquire, and apply'')
                     v
              else v)
      | _ \<Rightarrow> emit ''impl.auth_flow.structured_fields'' False ''auth exists but is not an object'' v)"

subsection \<open>Rule 7: auth docs requirement\<close>

definition check_auth_docs_requirement :: "validator \<Rightarrow> validator" where
  "check_auth_docs_requirement v =
     (let auth = dict_get (doc v) ''auth'';
          auth_type = (case auth of JObj a \<Rightarrow> dict_get a ''type'' | _ \<Rightarrow> JNull);
          protected_expected = (is_str auth_type \<and> auth_type \<noteq> JStr ''none'')
      in if check_defs v ''impl.auth_docs.required_for_protected'' = None then v
         else if protected_expected
         then emit ''impl.auth_docs.required_for_protected'' True
                ''requires /ai-docs/auth for protected APIs (runtime endpoint verification out of scope for static document validation)''
                v
         else emit ''impl.auth_docs.required_for_protected'' True
                ''auth.type is none or missing; /ai-docs/auth requirement not triggered'' v)"

subsection \<open>Rules 8 and 9: presence of a key in every endpoint\<close>

fun missing_key_loop :: "string \<Rightarrow> json list \<Rightarrow> json list \<Rightarrow> json list" where
  "missing_key_loop k [] missing = missing"
| "missing_key_loop k (ep # eps) missing =
     (case ep of
        JObj e \<Rightarrow>
          (if \<not> dict_has e k
           then missing_key_loop k eps (missing @ [dict_get_or e ''name'' (JStr ''<unknown>'')])
           else missing_key_loop k eps missing)
      | _ \<Rightarrow> missing_key_loop k eps missing)"

definition check_auth_required_presence :: "(json \<Rightarrow> string) \<Rightarrow> validator \<Rightarrow> validator" where
  "check_auth_required_presence R v =
     (let missing = missing_key_loop ''auth_required'' (endpoints_of (doc v)) []
      in emit ''impl.endpoint.auth_required_supported'' (missing = [])
           (if missing = [] then ''all endpoints include auth_required''
            else ''endpoints missing auth_required: '' @ str_list (map R missing))
           v)"

definition check_response_content_type_support :: "(json \<Rightarrow> string) \<Rightarrow> validator \<Rightarrow> validator" where
  "check_response_content_type_support R v =
     (let missing = missing_key_loop ''response_content_type'' (endpoints_of (doc v)) []
      in emit ''impl.endpoint.response_content_type_supported'' (missing = [])
           (if missing = [] then ''all endpoints include response_content_type''
            else ''endpoints missing response_content_type: '' @ str_list (map R missing))
           v)"

subsection \<open>Rule 10: param constraints published\<close>

fun constraint_params_loop :: "json list \<Rightarrow> int \<times> int \<Rightarrow> int \<times> int" where
  "constraint_params_loop [] cnt = cnt"
| "constraint_params_loop (p # ps) cnt =
     (case p of
        JObj pd \<Rightarrow>
          (case cnt of (params_total, constrained) \<Rightarrow>
             constraint_params_loop ps
               (params_total + 1,
                if list_ex (\<lambda>field. dict_has pd field) CONSTRAINT_FIELDS
                then constrained + 1 else constrained))
      | _ \<Rightarrow> constraint_params_loop ps cnt)"

fun constraint_loop :: "json list \<Rightarrow> int \<times> int \<Rightarrow> int \<times> int" where
  "constraint_loop [] cnt = cnt"
| "constraint_loop (ep # eps) cnt =
     (case ep of
        JObj e \<Rightarrow>
          (case dict_get_or e ''params'' (JList []) of
             JList params \<Rightarrow> constraint_loop eps (constraint_params_loop params cnt)
           | _ \<Rightarrow> constraint_loop eps cnt)
      | _ \<Rightarrow> constraint_loop eps cnt)"

definition check_param_constraints_published :: "validator \<Rightarrow> validator" where
  "check_param_constraints_published v =
     (case constraint_loop (endpoints_of (doc v)) (0, 0) of
        (params_total, constrained) \<Rightarrow>
          if params_total = 0
          then emit ''impl.params.constraints_published'' True
                 ''no params defined; constraint publication not applicable'' v
          else emit ''impl.params.constraints_published'' (constrained > 0)
                 (str_int constrained @ ''/'' @ str_int params_total @
                  '' params publish machine-readable constraints'')
                 v)"

subsection \<open>Rule 11: agent rules\<close>

definition check_agent_rules_consistent_shape :: "validator \<Rightarrow> validator" where
  "check_agent_rules_consistent_shape v =
     (case dict_get (doc v) ''agent_rules'' of
        JNull \<Rightarrow> emit ''impl.agent_rules.consistent'' True ''agent_rules not present (optional)'' v
      | rules \<Rightarrow>
          (let ok = (case rules of
                       JList xs \<Rightarrow> list_all (\<lambda>x. case x of JStr s \<Rightarrow> strip s \<noteq> [] | _ \<Rightarrow> False) xs
                     | _ \<Rightarrow> False)
           in emit ''impl.agent_rules.consistent'' ok
                (if ok then ''agent_rules is a non-empty string list''
                 else ''agent_rules should be an array of non-empty strings'')
                v))"

subsection \<open>The evaluator\<close>

text \<open>\<open>run\<close>: the eleven rules in order; an exception in one rule ends the run.\<close>

definition run :: "(json \<Rightarrow> string) \<Rightarrow> validator \<Rightarrow> py_error + validator" where
  "run R v =
     (let v1 = check_top_level_required_fields R v;
          v2 = check_endpoint_uniqueness R v1
      in case check_params_uniqueness R v2 of
           Inl e \<Rightarrow> Inl e
         | Inr v3 \<Rightarrow>
             (let v4 = check_method_values R v3
              in case check_param_locations R v4 of
                   Inl e \<Rightarrow> Inl e
                 | Inr v5 \<Rightarrow>
                     (let v6 = check_auth_object R v5;
                          v7 = check_auth_docs_requirement v6;
                          v8 = check_auth_required_presence R v7;
                          v9 = check_response_content_type_support R v8;
                          v10 = check_param_constraints_published v9
                      in Inr (check_agent_rules_consistent_shape v10))))"

text \<open>\<open>Validator(aiif_doc, checklist_doc)\<close> followed by \<open>run()\<close>: the result list.\<close>

definition validate :: "(json \<Rightarrow> string) \<Rightarrow> pydict \<Rightarrow> pydict \<Rightarrow> py_error + CheckResult list" where
  "validate R d cl =
     (case Validator_init d cl of
        Inl e \<Rightarrow> Inl e
      | Inr v \<Rightarrow> (case run R v of Inl e \<Rightarrow> Inl e | Inr v' \<Rightarrow> Inr (results v')))"

section \<open>Report and exit status\<close>

text \<open>\<open>print_report\<close>: the printed lines, in order.\<close>

definition report_step ::
  "(json \<Rightarrow> string) \<Rightarrow> string list \<times> int \<times> int \<Rightarrow> CheckResult \<Rightarrow> string list \<times> int \<times> int" where
  "report_step R st r =
     (case st of (out, must_fail, should_fail) \<Rightarrow>
        (let status = (if passed r then ''PASS'' else ''FAIL'');
             out' = out @ [''['' @ status @ ''] '' @ check_id r @ '' ('' @ py_str R (level r) @ '')'',
                           ''       '' @ message r]
         in if \<not> passed r
            then (if level r = JStr ''MUST'' then (out', must_fail + 1, should_fail)
                  else if level r = JStr ''SHOULD'' then (out', must_fail, should_fail + 1)
                  else (out', must_fail, should_fail))
            else (out', must_fail, should_fail)))"

definition compliant_line :: string where
  "compliant_line = ''Result: COMPLIANT (all MUST checks passed)''"

definition not_compliant_line :: string where
  "not_compliant_line = ''Result: NOT COMPLIANT (one or more MUST checks failed)''"

definition print_report :: "(json \<Rightarrow> string) \<Rightarrow> CheckResult list \<Rightarrow> string list" where
  "print_report R rs =
     (case foldl (report_step R)
             ([''AIIF Conformance Report'', replicate 72 (CHR ''='')], 0, 0) rs of
        (out, must_fail, should_fail) \<Rightarrow>
          out @ [replicate 72 (CHR ''-''),
                 ''Total checks: '' @ str_int (int (length rs)),
                 ''MUST failures: '' @ str_int must_fail,
                 ''SHOULD failures: '' @ str_int should_fail,
                 (if must_fail = 0 then compliant_line else not_compliant_line)])"

text \<open>The tail of \<open>main\<close>: the two counts and the exit status derived from them.\<close>

definition count_failures :: "string \<Rightarrow> CheckResult list \<Rightarrow> int" where
  "count_failures lvl rs = sum_list (map (\<lambda>r. 1) (filter (\<lambda>r. \<not> passed r \<and> level r = JStr lvl) rs))"

definition exit_status :: "int \<Rightarrow> int \<Rightarrow> bool \<Rightarrow> int" where
  "exit_status must_fail should_fail strict_should =
     (if must_fail > 0 then 1
      else if strict_should \<and> should_fail > 0 then 1
      else 0)"

definition main_status :: "CheckResult list \<Rightarrow> bool \<Rightarrow> int" where
  "main_status rs strict_should =
     exit_status (count_failures ''MUST'' rs) (count_failures ''SHOULD'' rs) strict_should"

text \<open>
  What \<open>main\<close> does once both files are parsed: validate, print the report, derive the
  exit status.
\<close>

definition main :: "(json \<Rightarrow> string) \<Rightarrow> pydict \<Rightarrow> pydict \<Rightarrow> bool \<Rightarrow> py_error + string list \<times> int" where
  "main R d cl strict_should =
     (case validate R d cl of
        Inl e \<Rightarrow> Inl e
      | Inr rs \<Rightarrow> Inr (print_report R rs, main_status rs strict_should))"

section \<open>Notions used in the statements\<close>

text \<open>
  An instance of the parameter \<open>R\<close> for closed examples: Python's \<open>repr\<close> on \<open>None\<close>,
  booleans, integers and strings free of quotes, backslashes and non-printable characters;
  a placeholder on floats and containers.
\<close>

fun repr_sample :: "json \<Rightarrow> string" where
  "repr_sample JNull = ''None''"
| "repr_sample (JBool b) = (if b then ''True'' else ''False'')"
| "repr_sample (JInt i) = str_int i"
| "repr_sample (JStr s) = [CHR 0x27] @ s @ [CHR 0x27]"
| "repr_sample (JFloat f) = ''<float>''"
| "repr_sample (JList xs) = ''<list>''"
| "repr_sample (JObj d) = ''<dict>''"

text \<open>A failing result of the given level.\<close>

definition is_failure :: "string \<Rightarrow> CheckResult \<Rightarrow> bool" where
  "is_failure lvl r = (\<not> passed r \<and> level r = JStr lvl)"

text \<open>The two lines that \<open>print_report\<close> prints for one result.\<close>

definition result_lines :: "(json \<Rightarrow> string) \<Rightarrow> CheckResult \<Rightarrow> string list" where
  "result_lines R r =
     [''['' @ (if passed r then ''PASS'' else ''FAIL'') @ ''] '' @ check_id r @
        '' ('' @ py_str R (level r) @ '')'',
      ''       '' @ message r]"

text \<open>
  The level that the registry declares for a check id: the value stored under \<open>level\<close>
  in the entry registered for the id, \<open>"INFO"\<close> when there is no entry or no such key.
\<close>

definition declared_level :: "(string \<rightharpoonup> pydict) \<Rightarrow> string \<Rightarrow> json" where
  "declared_level defs cid =
     (case defs cid of
        None \<Rightarrow> JStr ''INFO''
      | Some d \<Rightarrow> (case map_of d ''level'' of None \<Rightarrow> JStr ''INFO'' | Some l \<Rightarrow> l))"

definition levels_resolved :: "validator \<Rightarrow> bool" where
  "levels_resolved v =
     (\<forall>r \<in> set (results v). level r = declared_level (check_defs v) (check_id r))"

text \<open>What a result says apart from its level.\<close>

definition outcomes :: "validator \<Rightarrow> (string \<times> bool \<times> string) list" where
  "outcomes v = map (\<lambda>r. (check_id r, passed r, message r)) (results v)"

text \<open>
  The entry that a list of checklist items registers for an id: the last object of the list
  whose \<open>id\<close> is that string.
\<close>

definition object_items :: "json list \<Rightarrow> pydict list" where
  "object_items items = concat (map (\<lambda>x. case x of JObj d \<Rightarrow> [d] | _ \<Rightarrow> []) items)"

definition registered :: "string \<Rightarrow> json list \<Rightarrow> pydict option" where
  "registered cid items =
     (case filter (\<lambda>d. dict_get d ''id'' = JStr cid) (object_items items) of
        [] \<Rightarrow> None
      | ds \<Rightarrow> Some (last ds))"

text \<open>
  The params that rule 10 counts: the objects in the \<open>params\<close> list of every endpoint
  that is an object; and what it means for one of them to declare a constraint.
\<close>

definition param_objects :: "json list \<Rightarrow> pydict list" where
  "param_objects ps = concat (map (\<lambda>p. case p of JObj pd \<Rightarrow> [pd] | _ \<Rightarrow> []) ps)"

definition endpoint_params :: "json \<Rightarrow> pydict list" where
  "endpoint_params ep =
     (case ep of
        JObj e \<Rightarrow> (case dict_get_or e ''params'' (JList []) of
                    JList ps \<Rightarrow> param_objects ps
                  | _ \<Rightarrow> [])
      | _ \<Rightarrow> [])"

definition counted_params :: "pydict \<Rightarrow> pydict list" where
  "counted_params d = concat (map endpoint_params (endpoints_of d))"

definition has_constraint :: "pydict \<Rightarrow> bool" where
  "has_constraint pd =
     (dict_has pd ''minimum'' \<or> dict_has pd ''maximum'' \<or> dict_has pd ''min_length''
      \<or> dict_has pd ''max_length'' \<or> dict_has pd ''pattern'' \<or> dict_has pd ''format'')"

text \<open>The same validator with a document whose \<open>endpoints\<close> is the empty list.\<close>

definition with_empty_endpoints :: "validator \<Rightarrow> validator" where
  "with_empty_endpoints v = v\<lparr>doc := (''endpoints'', JList []) # doc v\<rparr>"

section \<open>Exit status\<close>

lemma count_failures_length:
  "count_failures lvl rs = int (length (filter (is_failure lvl) rs))"
  unfolding count_failures_def is_failure_def
  by (induction rs) auto

text \<open>
  C1. The exit status is a function of the number of MUST failures, the number of SHOULD
  failures and the strict flag alone: 1 when there is a MUST failure, else 1 when the flag
  is set and there is a SHOULD failure, else 0. \<open>main\<close> feeds it the numbers of failing
  results of level MUST and SHOULD. The three sample verdicts of the specification hold.
\<close>

theorem exit_status_verdict:
  "exit_status m s strict = (if m > 0 then 1 else if strict \<and> s > 0 then 1 else 0)
   \<and> (exit_status m s strict = 1 \<longleftrightarrow> m > 0 \<or> (strict \<and> s > 0))
   \<and> (exit_status m s strict = 0 \<longleftrightarrow> \<not> (m > 0 \<or> (strict \<and> s > 0)))
   \<and> main_status rs strict =
       exit_status (int (length (filter (is_failure ''MUST'') rs)))
                   (int (length (filter (is_failure ''SHOULD'') rs))) strict
   \<and> exit_status 0 2 False = 0
   \<and> exit_status 0 2 True = 1
   \<and> exit_status 1 0 False = 1"
  by (simp add: exit_status_def main_status_def count_failures_length)

theorem exit_status_verdict_witness:
  "main_status [\<lparr>check_id = ''a'', level = JStr ''SHOULD'', passed = False, message = ''m''\<rparr>,
                \<lparr>check_id = ''b'', level = JStr ''INFO'', passed = False, message = ''m''\<rparr>] True = 1
   \<and> main_status [\<lparr>check_id = ''a'', level = JStr ''SHOULD'', passed = False, message = ''m''\<rparr>,
                  \<lparr>check_id = ''b'', level = JStr ''INFO'', passed = False, message = ''m''\<rparr>] False = 0"
  using exit_status_verdict
    [of 0 1 True "[\<lparr>check_id = ''a'', level = JStr ''SHOULD'', passed = False, message = ''m''\<rparr>,
                   \<lparr>check_id = ''b'', level = JStr ''INFO'', passed = False, message = ''m''\<rparr>]"]
    exit_status_verdict
    [of 0 1 False "[\<lparr>check_id = ''a'', level = JStr ''SHOULD'', passed = False, message = ''m''\<rparr>,
                    \<lparr>check_id = ''b'', level = JStr ''INFO'', passed = False, message = ''m''\<rparr>]"]
  by (simp add: is_failure_def)

section \<open>The report\<close>

lemma report_step_eq:
  "report_step R (out, m, s) r =
     (out @ result_lines R r,
      m + (if is_failure ''MUST'' r then 1 else 0),
      s + (if is_failure ''SHOULD'' r then 1 else 0))"
  by (simp add: report_step_def result_lines_def is_failure_def Let_def)

lemma foldl_report_step:
  "foldl (report_step R) (out, m, s) rs =
     (out @ concat (map (result_lines R) rs),
      m + int (length (filter (is_failure ''MUST'') rs)),
      s + int (length (filter (is_failure ''SHOULD'') rs)))"
proof (induction rs arbitrary: out m s)
  case Nil
  show ?case by simp
next
  case (Cons r rs)
  show ?case
    by (simp add: Cons.IH report_step_eq)
qed

lemma print_report_lines:
  "print_report R rs =
     [''AIIF Conformance Report'', replicate 72 (CHR ''='')] @
     concat (map (result_lines R) rs) @
     [replicate 72 (CHR ''-''),
      ''Total checks: '' @ str_int (int (length rs)),
      ''MUST failures: '' @ str_int (int (length (filter (is_failure ''MUST'') rs))),
      ''SHOULD failures: '' @ str_int (int (length (filter (is_failure ''SHOULD'') rs))),
      (if filter (is_failure ''MUST'') rs = [] then compliant_line else not_compliant_line)]"
  unfolding print_report_def foldl_report_step
  by simp

lemma compliant_lines_differ: "compliant_line \<noteq> not_compliant_line"
  by (simp add: compliant_line_def not_compliant_line_def)

text \<open>
  C2. For every result list the last printed line is
  \<open>Result: COMPLIANT (all MUST checks passed)\<close> exactly when no failing result has level
  MUST, and \<open>Result: NOT COMPLIANT (one or more MUST checks failed)\<close> otherwise. The two
  printed failure counts are the numbers of failing results of level MUST and of level
  SHOULD, so a failure of any other level (INFO included) is counted in neither, and
  dropping every failing result whose level is not MUST leaves the last line as it is.
\<close>

theorem print_report_compliance:
  "(last (print_report R rs) = ''Result: COMPLIANT (all MUST checks passed)''
      \<longleftrightarrow> filter (is_failure ''MUST'') rs = [])
   \<and> (last (print_report R rs) = ''Result: NOT COMPLIANT (one or more MUST checks failed)''
      \<longleftrightarrow> filter (is_failure ''MUST'') rs \<noteq> [])
   \<and> drop (2 + 2 * length rs) (print_report R rs) =
       [replicate 72 (CHR ''-''),
        ''Total checks: '' @ str_int (int (length rs)),
        ''MUST failures: '' @ str_int (int (length (filter (is_failure ''MUST'') rs))),
        ''SHOULD failures: '' @ str_int (int (length (filter (is_failure ''SHOULD'') rs))),
        (if filter (is_failure ''MUST'') rs = []
         then ''Result: COMPLIANT (all MUST checks passed)''
         else ''Result: NOT COMPLIANT (one or more MUST checks failed)'')]
   \<and> last (print_report R (filter (\<lambda>r. passed r \<or> level r = JStr ''MUST'') rs)) =
       last (print_report R rs)"
proof -
  have len: "length (concat (map (result_lines R) rs)) = 2 * length rs"
    by (induction rs) (simp_all add: result_lines_def)
  have last_eq: "last (print_report R xs) =
      (if filter (is_failure ''MUST'') xs = []
       then ''Result: COMPLIANT (all MUST checks passed)''
       else ''Result: NOT COMPLIANT (one or more MUST checks failed)'')" for xs
    by (simp add: print_report_lines compliant_line_def not_compliant_line_def)
  have keep: "filter (is_failure ''MUST'') (filter (\<lambda>r. passed r \<or> level r = JStr ''MUST'') rs) =
      filter (is_failure ''MUST'') rs"
    by (induction rs) (auto simp: is_failure_def)
  have a: "last (print_report R rs) = ''Result: COMPLIANT (all MUST checks passed)''
      \<longleftrightarrow> filter (is_failure ''MUST'') rs = []"
    by (simp add: last_eq)
  have b: "last (print_report R rs) = ''Result: NOT COMPLIANT (one or more MUST checks failed)''
      \<longleftrightarrow> filter (is_failure ''MUST'') rs \<noteq> []"
    by (simp add: last_eq)
  have c: "drop (2 + 2 * length rs) (print_report R rs) =
       [replicate 72 (CHR ''-''),
        ''Total checks: '' @ str_int (int (length rs)),
        ''MUST failures: '' @ str_int (int (length (filter (is_failure ''MUST'') rs))),
        ''SHOULD failures: '' @ str_int (int (length (filter (is_failure ''SHOULD'') rs))),
        (if filter (is_failure ''MUST'') rs = []
         then ''Result: COMPLIANT (all MUST checks passed)''
         else ''Result: NOT COMPLIANT (one or more MUST checks failed)'')]"
    unfolding print_report_lines using len
    by (simp add: compliant_line_def not_compliant_line_def)
  have d: "last (print_report R (filter (\<lambda>r. passed r \<or> level r = JStr ''MUST'') rs)) =
       last (print_report R rs)"
    by (simp only: last_eq keep)
  show ?thesis
    by (rule conjI [OF a conjI [OF b conjI [OF c d]]])
qed

theorem print_report_compliance_witness:
  "last (print_report repr_sample
     [\<lparr>check_id = ''a'', level = JStr ''SHOULD'', passed = False, message = ''m''\<rparr>,
      \<lparr>check_id = ''b'', level = JStr ''INFO'', passed = False, message = ''m''\<rparr>,
      \<lparr>check_id = ''c'', level = JStr ''MUST'', passed = True, message = ''m''\<rparr>])
     = ''Result: COMPLIANT (all MUST checks passed)''
   \<and> last (print_report repr_sample
     [\<lparr>check_id = ''a'', level = JStr ''MUST'', passed = False, message = ''m''\<rparr>])
     = ''Result: NOT COMPLIANT (one or more MUST checks failed)''"
  using print_report_compliance [of repr_sample
     "[\<lparr>check_id = ''a'', level = JStr ''SHOULD'', passed = False, message = ''m''\<rparr>,
       \<lparr>check_id = ''b'', level = JStr ''INFO'', passed = False, message = ''m''\<rparr>,
       \<lparr>check_id = ''c'', level = JStr ''MUST'', passed = True, message = ''m''\<rparr>]"]
    print_report_compliance [of repr_sample
     "[\<lparr>check_id = ''a'', level = JStr ''MUST'', passed = False, message = ''m''\<rparr>]"]
  by (simp add: is_failure_def)

section \<open>Severity of emitted results\<close>

lemma emit_results:
  "results (emit cid ok msg v) =
     results v @
     [\<lparr>check_id = cid, level = declared_level (check_defs v) cid, passed = ok, message = msg\<rparr>]"
  by (simp add: emit_def declared_level_def dict_get_or_def Let_def split: option.splits)

lemma emit_frame [simp]:
  "check_defs (emit cid ok msg v) = check_defs v"
  "doc (emit cid ok msg v) = doc v"
  "checklist (emit cid ok msg v) = checklist v"
  by (simp_all add: emit_def Let_def)

lemma emit_levels_resolved [simp]: "levels_resolved (emit cid ok msg v) = levels_resolved v"
  by (auto simp: levels_resolved_def emit_results)

lemma top_level_levels:
  "levels_resolved (check_top_level_required_fields R v) = levels_resolved v"
  "check_defs (check_top_level_required_fields R v) = check_defs v"
  by (simp_all add: check_top_level_required_fields_def Let_def)

lemma endpoint_uniqueness_levels:
  "levels_resolved (check_endpoint_uniqueness R v) = levels_resolved v"
  "check_defs (check_endpoint_uniqueness R v) = check_defs v"
  by (simp_all add: check_endpoint_uniqueness_def split: prod.splits)

lemma params_uniqueness_levels:
  "check_params_uniqueness R v = Inr v' \<Longrightarrow>
     levels_resolved v' = levels_resolved v \<and> check_defs v' = check_defs v"
  by (auto simp: check_params_uniqueness_def split: sum.splits)

lemma method_values_levels:
  "levels_resolved (check_method_values R v) = levels_resolved v"
  "check_defs (check_method_values R v) = check_defs v"
  by (simp_all add: check_method_values_def Let_def)

lemma param_locations_levels:
  "check_param_locations R v = Inr v' \<Longrightarrow>
     levels_resolved v' = levels_resolved v \<and> check_defs v' = check_defs v"
  by (auto simp: check_param_locations_def split: sum.splits if_splits)

lemma auth_object_levels:
  "levels_resolved (check_auth_object R v) = levels_resolved v"
  "check_defs (check_auth_object R v) = check_defs v"
  by (simp_all add: check_auth_object_def Let_def split: json.splits)

lemma auth_docs_levels:
  "levels_resolved (check_auth_docs_requirement v) = levels_resolved v"
  "check_defs (check_auth_docs_requirement v) = check_defs v"
  by (simp_all add: check_auth_docs_requirement_def Let_def)

lemma auth_required_levels:
  "levels_resolved (check_auth_required_presence R v) = levels_resolved v"
  "check_defs (check_auth_required_presence R v) = check_defs v"
  by (simp_all add: check_auth_required_presence_def Let_def)

lemma response_content_type_levels:
  "levels_resolved (check_response_content_type_support R v) = levels_resolved v"
  "check_defs (check_response_content_type_support R v) = check_defs v"
  by (simp_all add: check_response_content_type_support_def Let_def)

lemma param_constraints_levels:
  "levels_resolved (check_param_constraints_published v) = levels_resolved v"
  "check_defs (check_param_constraints_published v) = check_defs v"
  by (simp_all add: check_param_constraints_published_def Let_def split: prod.splits)

lemma agent_rules_levels:
  "levels_resolved (check_agent_rules_consistent_shape v) = levels_resolved v"
  "check_defs (check_agent_rules_consistent_shape v) = check_defs v"
  by (simp_all add: check_agent_rules_consistent_shape_def Let_def split: json.splits)

lemma run_levels:
  assumes "run R v = Inr v'"
  shows "levels_resolved v' = levels_resolved v \<and> check_defs v' = check_defs v"
proof -
  let ?v2 = "check_endpoint_uniqueness R (check_top_level_required_fields R v)"
  from assms obtain v3 where v3: "check_params_uniqueness R ?v2 = Inr v3"
    by (auto simp: run_def Let_def split: sum.splits)
  from assms v3 obtain v5 where v5: "check_param_locations R (check_method_values R v3) = Inr v5"
    by (auto simp: run_def Let_def split: sum.splits)
  from assms v3 v5 have v': "v' = check_agent_rules_consistent_shape
      (check_param_constraints_published
        (check_response_content_type_support R
          (check_auth_required_presence R
            (check_auth_docs_requirement (check_auth_object R v5)))))"
    by (simp add: run_def Let_def)
  show ?thesis
    using params_uniqueness_levels [OF v3] param_locations_levels [OF v5]
    by (simp add: v' top_level_levels endpoint_uniqueness_levels method_values_levels
        auth_object_levels auth_docs_levels auth_required_levels response_content_type_levels
        param_constraints_levels agent_rules_levels)
qed

text \<open>
  C3, as amended. Whenever validation of a document against a checklist returns its result
  list, the registry was built and the level of every result is the level declared for its
  check id: the value stored under \<open>level\<close> in the registered entry, whatever that value
  is, and \<open>"INFO"\<close> when the id is not registered or its entry has no \<open>level\<close> key. No rule
  supplies a level of its own.
\<close>

theorem emitted_level_declared:
  assumes "validate R d cl = Inr rs"
  shows "\<exists>defs. index_checks cl = Inr defs \<and>
           (\<forall>r \<in> set rs. level r = declared_level defs (check_id r))"
proof -
  from assms obtain defs where defs: "index_checks cl = Inr defs"
    by (auto simp: validate_def Validator_init_def split: sum.splits)
  let ?v = "\<lparr>doc = d, checklist = cl, check_defs = defs, results = []\<rparr>"
  from assms defs obtain v' where v': "run R ?v = Inr v'" and rs: "rs = results v'"
    by (auto simp: validate_def Validator_init_def split: sum.splits)
  have "levels_resolved ?v" by (simp add: levels_resolved_def)
  with run_levels [OF v'] have "levels_resolved v'" "check_defs v' = defs" by simp_all
  with defs rs show ?thesis by (auto simp: levels_resolved_def)
qed

theorem emitted_level_declared_witness:
  "validate repr_sample
     [(''aiif_version'', JStr ''1.0''), (''info'', JObj []), (''endpoints'', JList [])]
     [(''checks'', JList [JObj [(''id'', JStr ''impl.agent_rules.consistent''),
                                (''level'', JStr ''SHOULD'')]])]
   = Inr [\<lparr>check_id = ''impl.top_level.required_fields'', level = JStr ''INFO'', passed = True,
              message = ''top-level required fields present''\<rparr>,
          \<lparr>check_id = ''impl.endpoint_name.unique'', level = JStr ''INFO'', passed = True,
              message = ''endpoint names are unique''\<rparr>,
          \<lparr>check_id = ''impl.method_path.unique'', level = JStr ''INFO'', passed = True,
              message = ''(method,path) pairs are unique''\<rparr>,
          \<lparr>check_id = ''impl.params.unique_by_name_location'', level = JStr ''INFO'', passed = True,
              message = ''params are unique by (name,location)''\<rparr>,
          \<lparr>check_id = ''impl.endpoint.auth_required_supported'', level = JStr ''INFO'', passed = True,
              message = ''all endpoints include auth_required''\<rparr>,
          \<lparr>check_id = ''impl.endpoint.response_content_type_supported'', level = JStr ''INFO'',
              passed = True, message = ''all endpoints include response_content_type''\<rparr>,
          \<lparr>check_id = ''impl.params.constraints_published'', level = JStr ''INFO'', passed = True,
              message = ''no params defined; constraint publication not applicable''\<rparr>,
          \<lparr>check_id = ''impl.agent_rules.consistent'', level = JStr ''SHOULD'', passed = True,
              message = ''agent_rules not present (optional)''\<rparr>]
   \<and> (\<exists>defs. index_checks
         [(''checks'', JList [JObj [(''id'', JStr ''impl.agent_rules.consistent''),
                                    (''level'', JStr ''SHOULD'')]])] = Inr defs
        \<and> declared_level defs ''impl.agent_rules.consistent'' = JStr ''SHOULD''
        \<and> declared_level defs ''impl.top_level.required_fields'' = JStr ''INFO'')"
proof -
  let ?d = "[(''aiif_version'', JStr ''1.0''), (''info'', JObj []), (''endpoints'', JList [])]"
  let ?cl = "[(''checks'', JList [JObj [(''id'', JStr ''impl.agent_rules.consistent''),
                                        (''level'', JStr ''SHOULD'')]])]"
  let ?rs = "[\<lparr>check_id = ''impl.top_level.required_fields'', level = JStr ''INFO'', passed = True,
              message = ''top-level required fields present''\<rparr>,
          \<lparr>check_id = ''impl.endpoint_name.unique'', level = JStr ''INFO'', passed = True,
              message = ''endpoint names are unique''\<rparr>,
          \<lparr>check_id = ''impl.method_path.unique'', level = JStr ''INFO'', passed = True,
              message = ''(method,path) pairs are unique''\<rparr>,
          \<lparr>check_id = ''impl.params.unique_by_name_location'', level = JStr ''INFO'', passed = True,
              message = ''params are unique by (name,location)''\<rparr>,
          \<lparr>check_id = ''impl.endpoint.auth_required_supported'', level = JStr ''INFO'', passed = True,
              message = ''all endpoints include auth_required''\<rparr>,
          \<lparr>check_id = ''impl.endpoint.response_content_type_supported'', level = JStr ''INFO'',
              passed = True, message = ''all endpoints include response_content_type''\<rparr>,
          \<lparr>check_id = ''impl.params.constraints_published'', level = JStr ''INFO'', passed = True,
              message = ''no params defined; constraint publication not applicable''\<rparr>,
          \<lparr>check_id = ''impl.agent_rules.consistent'', level = JStr ''SHOULD'', passed = True,
              message = ''agent_rules not present (optional)''\<rparr>]"
  have h: "validate repr_sample ?d ?cl = Inr ?rs"
    by code_simp
  from emitted_level_declared [OF h] obtain defs where
    defs: "index_checks ?cl = Inr defs" and
    lv: "\<forall>r \<in> set ?rs. level r = declared_level defs (check_id r)"
    by blast
  from lv have "declared_level defs ''impl.agent_rules.consistent'' = JStr ''SHOULD''"
    and "declared_level defs ''impl.top_level.required_fields'' = JStr ''INFO''"
    by simp_all
  with h defs show ?thesis by blast
qed

text \<open>
  The claim as stated fails: a level string outside MUST, SHOULD and INFO is attached to
  the result as it is, not replaced by \<open>"INFO"\<close>.
\<close>

theorem unrecognized_level_kept:
  "validate repr_sample
     [(''aiif_version'', JStr ''1.0''), (''info'', JObj []), (''endpoints'', JList [])]
     [(''checks'', JList [JObj [(''id'', JStr ''impl.top_level.required_fields''),
                                (''level'', JStr ''BOGUS'')]])]
   = Inr [\<lparr>check_id = ''impl.top_level.required_fields'', level = JStr ''BOGUS'', passed = True,
              message = ''top-level required fields present''\<rparr>,
          \<lparr>check_id = ''impl.endpoint_name.unique'', level = JStr ''INFO'', passed = True,
              message = ''endpoint names are unique''\<rparr>,
          \<lparr>check_id = ''impl.method_path.unique'', level = JStr ''INFO'', passed = True,
              message = ''(method,path) pairs are unique''\<rparr>,
          \<lparr>check_id = ''impl.params.unique_by_name_location'', level = JStr ''INFO'', passed = True,
              message = ''params are unique by (name,location)''\<rparr>,
          \<lparr>check_id = ''impl.endpoint.auth_required_supported'', level = JStr ''INFO'', passed = True,
              message = ''all endpoints include auth_required''\<rparr>,
          \<lparr>check_id = ''impl.endpoint.response_content_type_supported'', level = JStr ''INFO'',
              passed = True, message = ''all endpoints include response_content_type''\<rparr>,
          \<lparr>check_id = ''impl.params.constraints_published'', level = JStr ''INFO'', passed = True,
              message = ''no params defined; constraint publication not applicable''\<rparr>,
          \<lparr>check_id = ''impl.agent_rules.consistent'', level = JStr ''INFO'', passed = True,
              message = ''agent_rules not present (optional)''\<rparr>]"
  by code_simp

section \<open>Exceptions\<close>

text \<open>
  C4. The claim is that building the registry and running the eleven rules never raises,
  whatever the document and the checklist. The code raises at both of these inputs: a
  param whose \<open>name\<close> is a list makes \<open>key in seen\<close> of rule 3 raise \<open>TypeError\<close>, and
  a checklist entry that is not an object makes \<open>item.get\<close> of \<open>_index_checks\<close> raise
  \<open>AttributeError\<close>.
\<close>

theorem validate_raises_on_malformed_input:
  "validate repr_sample
     [(''aiif_version'', JStr ''1.0''), (''info'', JObj []),
      (''endpoints'', JList
         [JObj [(''name'', JStr ''a''), (''method'', JStr ''GET''), (''path'', JStr ''/x''),
                (''params'', JList [JObj [(''name'', JList [JStr ''id'']),
                                          (''location'', JStr ''query'')]]),
                (''auth_required'', JBool True),
                (''response_content_type'', JStr ''application/json'')]])]
     [] = Inl TypeError
   \<and> validate repr_sample
     [(''aiif_version'', JStr ''1.0''), (''info'', JObj []), (''endpoints'', JList [])]
     [(''checks'', JList [JInt 7])] = Inl AttributeError"
  by code_simp

section \<open>The registry\<close>

text \<open>
  When every item of \<open>checks\<close> is an object, the loop of \<open>_index_checks\<close> returns, and
  what it stores for an id is the last object with that id; objects whose \<open>id\<close> is not a
  string leave the registry as it is.
\<close>

lemma index_loop_objects:
  "list_all is_dict items \<Longrightarrow>
   index_loop items ix =
     Inr (\<lambda>cid. case registered cid items of None \<Rightarrow> ix cid | Some d \<Rightarrow> Some d)"
proof (induction items arbitrary: ix)
  case Nil
  show ?case by (simp add: registered_def object_items_def)
next
  case (Cons x xs)
  from Cons.prems obtain d where x: "x = JObj d" by (cases x) auto
  from Cons.prems have xs: "list_all is_dict xs" by simp
  have reg: "registered cid (JObj d # xs) =
      (case registered cid xs of
         Some e \<Rightarrow> Some e
       | None \<Rightarrow> if dict_get d ''id'' = JStr cid then Some d else None)" for cid
    by (auto simp: registered_def object_items_def split: list.splits)
  show ?case
  proof (cases "dict_get d ''id''")
    case (JStr c)
    show ?thesis
      by (auto simp: x JStr Cons.IH [OF xs] reg fun_eq_iff split: option.splits)
  qed (auto simp: x Cons.IH [OF xs] reg fun_eq_iff split: option.splits)
qed

lemma index_checks_last_write_wins:
  assumes "map_of cl ''checks'' = Some (JList items)" and "list_all is_dict items"
  shows "index_checks cl = Inr (\<lambda>cid. registered cid items)"
proof -
  have "index_loop items Map.empty =
      Inr (\<lambda>cid. case registered cid items of None \<Rightarrow> None | Some d \<Rightarrow> Some d)"
    by (rule index_loop_objects [OF assms(2)])
  also have "(\<lambda>cid. case registered cid items of None \<Rightarrow> None | Some d \<Rightarrow> Some d) =
      (\<lambda>cid. registered cid items)"
    by (auto simp: fun_eq_iff split: option.splits)
  finally show ?thesis
    using assms(1) by (simp add: index_checks_def dict_get_or_def)
qed

text \<open>
  C9. The claim is that for every checklist with two or more entries of the same string
  id the registry stores the last of them. At this checklist, which has two entries with
  id \<open>a\<close> followed by an entry that is not an object, no registry is built:
  \<open>_index_checks\<close> raises \<open>AttributeError\<close>.
\<close>

theorem index_checks_raises_on_non_object_entry:
  "index_checks [(''checks'', JList [JObj [(''id'', JStr ''a''), (''level'', JStr ''MUST'')],
                                     JObj [(''id'', JStr ''a''), (''level'', JStr ''SHOULD'')],
                                     JInt 7])] = Inl AttributeError"
  by (simp add: index_checks_def dict_get_def dict_get_or_def)

section \<open>Conditional emission\<close>

lemma outcomes_emit: "outcomes (emit cid ok msg v) = outcomes v @ [(cid, ok, msg)]"
  by (simp add: outcomes_def emit_def Let_def)

lemma outcomes_defs [simp]: "outcomes (v\<lparr>check_defs := defs\<rparr>) = outcomes v"
  by (simp add: outcomes_def)

lemma emit_outcomes_defs:
  "outcomes (emit cid ok msg (v\<lparr>check_defs := defs\<rparr>)) =
     outcomes (emit cid ok msg v)"
  by (simp add: outcomes_emit)

lemma top_level_outcomes_defs:
  "outcomes (check_top_level_required_fields R (v\<lparr>check_defs := defs\<rparr>)) =
     outcomes (check_top_level_required_fields R v)"
  by (simp add: check_top_level_required_fields_def Let_def outcomes_emit)

lemma endpoint_uniqueness_outcomes_defs:
  "outcomes (check_endpoint_uniqueness R (v\<lparr>check_defs := defs\<rparr>)) =
     outcomes (check_endpoint_uniqueness R v)"
  by (simp add: check_endpoint_uniqueness_def outcomes_emit split: prod.splits)

lemma params_uniqueness_outcomes_defs:
  "map_sum id outcomes (check_params_uniqueness R (v\<lparr>check_defs := defs\<rparr>)) =
     map_sum id outcomes (check_params_uniqueness R v)"
  by (simp add: check_params_uniqueness_def outcomes_emit split: sum.splits)

lemma auth_object_outcomes_defs:
  "outcomes (check_auth_object R (v\<lparr>check_defs := defs\<rparr>)) =
     outcomes (check_auth_object R v)"
  by (simp add: check_auth_object_def outcomes_emit Let_def split: json.splits)

lemma auth_required_outcomes_defs:
  "outcomes (check_auth_required_presence R (v\<lparr>check_defs := defs\<rparr>)) =
     outcomes (check_auth_required_presence R v)"
  by (simp add: check_auth_required_presence_def outcomes_emit Let_def)

lemma response_content_type_outcomes_defs:
  "outcomes (check_response_content_type_support R (v\<lparr>check_defs := defs\<rparr>)) =
     outcomes (check_response_content_type_support R v)"
  by (simp add: check_response_content_type_support_def outcomes_emit Let_def)

lemma param_constraints_outcomes_defs:
  "outcomes (check_param_constraints_published (v\<lparr>check_defs := defs\<rparr>)) =
     outcomes (check_param_constraints_published v)"
  by (simp add: check_param_constraints_published_def outcomes_emit Let_def split: prod.splits)

lemma agent_rules_outcomes_defs:
  "outcomes (check_agent_rules_consistent_shape (v\<lparr>check_defs := defs\<rparr>)) =
     outcomes (check_agent_rules_consistent_shape v)"
  by (simp add: check_agent_rules_consistent_shape_def outcomes_emit Let_def split: json.splits)

lemma method_values_emits_iff_defined:
  "length (results (check_method_values R v)) =
     length (results v) + (if check_defs v ''impl.endpoint.method.allowed'' \<noteq> None then 1 else 0)"
  "check_defs v ''impl.endpoint.method.allowed'' = None \<Longrightarrow> check_method_values R v = v"
  by (simp_all add: check_method_values_def Let_def emit_results)

lemma auth_docs_emits_iff_defined:
  "length (results (check_auth_docs_requirement v)) =
     length (results v) + (if check_defs v ''impl.auth_docs.required_for_protected'' \<noteq> None then 1 else 0)"
  "check_defs v ''impl.auth_docs.required_for_protected'' = None \<Longrightarrow> check_auth_docs_requirement v = v"
  by (simp_all add: check_auth_docs_requirement_def Let_def emit_results)

lemma param_locations_emits_iff_defined:
  "check_param_locations R v = Inr v' \<Longrightarrow>
   length (results v') =
     length (results v) + (if check_defs v ''impl.params.location.allowed'' \<noteq> None then 1 else 0)"
  "check_param_locations R v = Inr v' \<Longrightarrow>
   check_defs v ''impl.params.location.allowed'' = None \<Longrightarrow> v' = v"
  by (auto simp add: check_param_locations_def Let_def emit_results split: sum.splits)

text \<open>
  C6. The claim is that rules 4, 5 and 7 emit exactly when the checklist defines their id
  and are silent no-ops otherwise. At this document, whose one param has a list as
  \<open>location\<close>, rule 5 raises \<open>TypeError\<close> with its id undefined and with its id
  defined: the membership test runs before the registry is consulted. A whole run on the
  document, with all three ids defined, raises as well and leaves no result for any of
  them.
\<close>

theorem param_locations_raises_before_guard:
  "check_param_locations repr_sample
     \<lparr>doc = [(''endpoints'', JList [JObj [(''params'',
                 JList [JObj [(''name'', JStr ''q''), (''location'', JList [JStr ''query''])]])]])],
      checklist = [], check_defs = Map.empty, results = []\<rparr> = Inl TypeError
   \<and> check_param_locations repr_sample
     \<lparr>doc = [(''endpoints'', JList [JObj [(''params'',
                 JList [JObj [(''name'', JStr ''q''), (''location'', JList [JStr ''query''])]])]])],
      checklist = [],
      check_defs = [''impl.params.location.allowed'' \<mapsto> [(''id'', JStr ''impl.params.location.allowed'')]],
      results = []\<rparr> = Inl TypeError
   \<and> validate repr_sample
     [(''endpoints'', JList [JObj [(''params'',
         JList [JObj [(''name'', JStr ''q''), (''location'', JList [JStr ''query''])]])]])]
     [(''checks'', JList [JObj [(''id'', JStr ''impl.endpoint.method.allowed'')],
                          JObj [(''id'', JStr ''impl.params.location.allowed'')],
                          JObj [(''id'', JStr ''impl.auth_docs.required_for_protected'')]])]
     = Inl TypeError"
proof -
  have a: "check_param_locations repr_sample
     \<lparr>doc = [(''endpoints'', JList [JObj [(''params'',
                 JList [JObj [(''name'', JStr ''q''), (''location'', JList [JStr ''query''])]])]])],
      checklist = [], check_defs = Map.empty, results = []\<rparr> = Inl TypeError"
    by (simp add: check_param_locations_def endpoints_of_def dict_get_def dict_get_or_def)
  have b: "check_param_locations repr_sample
     \<lparr>doc = [(''endpoints'', JList [JObj [(''params'',
                 JList [JObj [(''name'', JStr ''q''), (''location'', JList [JStr ''query''])]])]])],
      checklist = [],
      check_defs = [''impl.params.location.allowed'' \<mapsto> [(''id'', JStr ''impl.params.location.allowed'')]],
      results = []\<rparr> = Inl TypeError"
    by (simp add: check_param_locations_def endpoints_of_def dict_get_def dict_get_or_def)
  have c: "validate repr_sample
     [(''endpoints'', JList [JObj [(''params'',
         JList [JObj [(''name'', JStr ''q''), (''location'', JList [JStr ''query''])]])]])]
     [(''checks'', JList [JObj [(''id'', JStr ''impl.endpoint.method.allowed'')],
                          JObj [(''id'', JStr ''impl.params.location.allowed'')],
                          JObj [(''id'', JStr ''impl.auth_docs.required_for_protected'')]])]
     = Inl TypeError"
    by code_simp
  show ?thesis
    by (rule conjI [OF a conjI [OF b c]])
qed

section \<open>Rule 1\<close>

lemma strip_nonempty: "strip s \<noteq> [] \<longleftrightarrow> (\<exists>c \<in> set s. \<not> is_space c)"
proof -
  let ?t = "dropWhile is_space s"
  have "strip s = [] \<longleftrightarrow> (\<forall>x \<in> set ?t. is_space x)"
    by (simp add: strip_def dropWhile_eq_Nil_conv)
  also have "\<dots> \<longleftrightarrow> ?t = []"
  proof
    assume a: "\<forall>x \<in> set ?t. is_space x"
    show "?t = []"
    proof (rule ccontr)
      assume "?t \<noteq> []"
      then have "\<not> is_space (hd ?t)" "hd ?t \<in> set ?t"
        using hd_dropWhile [of is_space s] by simp_all
      with a show False by blast
    qed
  next
    assume e: "?t = []"
    show "\<forall>x \<in> set ?t. is_space x" unfolding e by simp
  qed
  also have "\<dots> \<longleftrightarrow> (\<forall>x \<in> set s. is_space x)"
    by (simp add: dropWhile_eq_Nil_conv)
  finally show ?thesis by blast
qed

lemma aiif_version_ok_iff:
  "aiif_version_ok d \<longleftrightarrow>
     (\<exists>s. map_of d ''aiif_version'' = Some (JStr s) \<and> (\<exists>c \<in> set s. \<not> is_space c))"
  by (auto simp: aiif_version_ok_def dict_get_def strip_nonempty split: option.splits json.splits)

lemma is_list_get_iff: "is_list (dict_get d k) \<longleftrightarrow> (\<exists>xs. map_of d k = Some (JList xs))"
  by (cases "map_of d k"; cases "dict_get d k") (auto simp: dict_get_def)

lemma is_dict_get_iff: "is_dict (dict_get d k) \<longleftrightarrow> (\<exists>e. map_of d k = Some (JObj e))"
  by (cases "map_of d k"; cases "dict_get d k") (auto simp: dict_get_def)

text \<open>
  C7, as amended. Rule 1 emits exactly one result. It fails exactly when one of
  \<open>aiif_version\<close>, \<open>info\<close>, \<open>endpoints\<close> is absent, or \<open>aiif_version\<close> is not a string
  with at least one character that is not whitespace, or \<open>endpoints\<close> is not a list, or
  \<open>info\<close> is not an object. On failure the message lists every absent key, and the
  \<open>aiif_version\<close> complaint when \<open>aiif_version\<close> is not such a string; when \<open>info\<close> and
  \<open>endpoints\<close> are each absent or of the right type, it lists exactly these, the absent
  keys first and in that order.
\<close>

theorem top_level_required_fields_result:
  "\<exists>r. results (check_top_level_required_fields R v) = results v @ [r]
     \<and> check_id r = ''impl.top_level.required_fields''
     \<and> (\<not> passed r \<longleftrightarrow>
          map_of (doc v) ''aiif_version'' = None
          \<or> map_of (doc v) ''info'' = None
          \<or> map_of (doc v) ''endpoints'' = None
          \<or> \<not> (\<exists>s. map_of (doc v) ''aiif_version'' = Some (JStr s) \<and> (\<exists>c \<in> set s. \<not> is_space c))
          \<or> \<not> (\<exists>xs. map_of (doc v) ''endpoints'' = Some (JList xs))
          \<or> \<not> (\<exists>e. map_of (doc v) ''info'' = Some (JObj e)))
     \<and> (\<not> passed r \<longrightarrow>
          (\<exists>items.
             message r = ''missing/invalid top-level fields: '' @
                         str_list (map (\<lambda>k. R (JStr k)) items)
             \<and> (\<forall>k \<in> {''aiif_version'', ''info'', ''endpoints''}.
                   map_of (doc v) k = None \<longrightarrow> k \<in> set items)
             \<and> (\<not> (\<exists>s. map_of (doc v) ''aiif_version'' = Some (JStr s)
                         \<and> (\<exists>c \<in> set s. \<not> is_space c))
                  \<longrightarrow> ''aiif_version (must be non-empty string)'' \<in> set items)))
     \<and> (\<not> passed r
          \<and> (map_of (doc v) ''endpoints'' = None
               \<or> (\<exists>xs. map_of (doc v) ''endpoints'' = Some (JList xs)))
          \<and> (map_of (doc v) ''info'' = None \<or> (\<exists>e. map_of (doc v) ''info'' = Some (JObj e)))
          \<longrightarrow>
          message r =
            ''missing/invalid top-level fields: '' @
            str_list (map (\<lambda>k. R (JStr k))
              (filter (\<lambda>k. map_of (doc v) k = None) [''aiif_version'', ''info'', ''endpoints''] @
               (if \<exists>s. map_of (doc v) ''aiif_version'' = Some (JStr s) \<and> (\<exists>c \<in> set s. \<not> is_space c)
                then [] else [''aiif_version (must be non-empty string)'']))))"
proof -
  let ?ok = "top_level_missing (doc v) = [] \<and> aiif_version_ok (doc v)
             \<and> is_list (dict_get (doc v) ''endpoints'') \<and> is_dict (dict_get (doc v) ''info'')"
  let ?msg = "if ?ok then ''top-level required fields present''
              else ''missing/invalid top-level fields: '' @
                   str_list (map (\<lambda>k. R (JStr k)) (top_level_details (doc v)))"
  let ?r = "\<lparr>check_id = ''impl.top_level.required_fields'',
             level = declared_level (check_defs v) ''impl.top_level.required_fields'',
             passed = ?ok, message = ?msg\<rparr>"
  let ?vok = "\<exists>s. map_of (doc v) ''aiif_version'' = Some (JStr s) \<and> (\<exists>c \<in> set s. \<not> is_space c)"
  let ?items = "filter (\<lambda>k. map_of (doc v) k = None) [''aiif_version'', ''info'', ''endpoints''] @
      (if ?vok then [] else [''aiif_version (must be non-empty string)''])"
  have res: "results (check_top_level_required_fields R v) = results v @ [?r]"
    by (simp add: check_top_level_required_fields_def Let_def emit_results)
  have missing: "top_level_missing (doc v) =
      filter (\<lambda>k. map_of (doc v) k = None) [''aiif_version'', ''info'', ''endpoints'']"
    by (simp add: top_level_missing_def dict_has_def)
  have missing_nil: "top_level_missing (doc v) = [] \<longleftrightarrow>
      map_of (doc v) ''aiif_version'' \<noteq> None \<and> map_of (doc v) ''info'' \<noteq> None
      \<and> map_of (doc v) ''endpoints'' \<noteq> None"
    unfolding missing by (simp add: filter_empty_conv)
  have ok: "\<not> ?ok \<longleftrightarrow>
          map_of (doc v) ''aiif_version'' = None
          \<or> map_of (doc v) ''info'' = None
          \<or> map_of (doc v) ''endpoints'' = None
          \<or> \<not> ?vok
          \<or> \<not> (\<exists>xs. map_of (doc v) ''endpoints'' = Some (JList xs))
          \<or> \<not> (\<exists>e. map_of (doc v) ''info'' = Some (JObj e))"
    unfolding missing_nil aiif_version_ok_iff is_list_get_iff is_dict_get_iff by auto
  have details: "top_level_details (doc v) = ?items"
    unfolding top_level_details_def missing aiif_version_ok_iff by simp
  have msg: "\<not> ?ok \<Longrightarrow> ?msg = ''missing/invalid top-level fields: '' @
            str_list (map (\<lambda>k. R (JStr k)) ?items)"
    unfolding details by simp
  have mem1: "\<forall>k \<in> {''aiif_version'', ''info'', ''endpoints''}.
      map_of (doc v) k = None \<longrightarrow> k \<in> set ?items"
    by simp
  have mem2: "\<not> ?vok \<longrightarrow> ''aiif_version (must be non-empty string)'' \<in> set ?items"
    by simp
  have listed: "\<not> ?ok \<longrightarrow>
          (\<exists>items.
             ?msg = ''missing/invalid top-level fields: '' @
                    str_list (map (\<lambda>k. R (JStr k)) items)
             \<and> (\<forall>k \<in> {''aiif_version'', ''info'', ''endpoints''}.
                   map_of (doc v) k = None \<longrightarrow> k \<in> set items)
             \<and> (\<not> ?vok \<longrightarrow> ''aiif_version (must be non-empty string)'' \<in> set items))"
  proof
    assume n: "\<not> ?ok"
    show "\<exists>items.
             ?msg = ''missing/invalid top-level fields: '' @
                    str_list (map (\<lambda>k. R (JStr k)) items)
             \<and> (\<forall>k \<in> {''aiif_version'', ''info'', ''endpoints''}.
                   map_of (doc v) k = None \<longrightarrow> k \<in> set items)
             \<and> (\<not> ?vok \<longrightarrow> ''aiif_version (must be non-empty string)'' \<in> set items)"
      by (rule exI [of _ ?items]) (rule conjI [OF msg [OF n] conjI [OF mem1 mem2]])
  qed
  have exact: "\<not> ?ok
          \<and> (map_of (doc v) ''endpoints'' = None
               \<or> (\<exists>xs. map_of (doc v) ''endpoints'' = Some (JList xs)))
          \<and> (map_of (doc v) ''info'' = None \<or> (\<exists>e. map_of (doc v) ''info'' = Some (JObj e)))
          \<longrightarrow> ?msg = ''missing/invalid top-level fields: '' @
            str_list (map (\<lambda>k. R (JStr k)) ?items)"
    using msg by blast
  have p: "passed ?r = ?ok" "message ?r = ?msg" "check_id ?r = ''impl.top_level.required_fields''"
    by simp_all
  show ?thesis
    apply (rule exI [of _ ?r])
    unfolding p
    apply (intro conjI)
        apply (rule res)
       apply (rule refl)
      apply (rule ok)
     apply (rule listed)
    apply (rule exact)
    done
qed

theorem top_level_required_fields_result_witness:
  "\<exists>r. results (check_top_level_required_fields repr_sample
           \<lparr>doc = [(''info'', JObj [])], checklist = [], check_defs = Map.empty, results = []\<rparr>) = [r]
       \<and> \<not> passed r
       \<and> message r = ''missing/invalid top-level fields: ['' @ [CHR 0x27] @ ''aiif_version'' @ [CHR 0x27]
             @ '', '' @ [CHR 0x27] @ ''endpoints'' @ [CHR 0x27]
             @ '', '' @ [CHR 0x27] @ ''aiif_version (must be non-empty string)'' @ [CHR 0x27] @ '']''"
  using top_level_required_fields_result
    [of repr_sample "\<lparr>doc = [(''info'', JObj [])], checklist = [], check_defs = Map.empty, results = []\<rparr>"]
  by (auto simp: str_list_def)

text \<open>
  The claim as stated fails: a version string made of whitespace is a non-empty string,
  all three keys are present with the right types, and the rule fails.
\<close>

theorem blank_version_fails:
  "results (check_top_level_required_fields repr_sample
      \<lparr>doc = [(''aiif_version'', JStr '' ''), (''info'', JObj []), (''endpoints'', JList [])],
       checklist = [], check_defs = Map.empty, results = []\<rparr>)
   = [\<lparr>check_id = ''impl.top_level.required_fields'', level = JStr ''INFO'', passed = False,
        message = ''missing/invalid top-level fields: ['' @ [CHR 0x27] @
                  ''aiif_version (must be non-empty string)'' @ [CHR 0x27] @ '']''\<rparr>]"
  by code_simp

section \<open>Rule 6\<close>

text \<open>
  C5, as amended. Rule 6 emits nothing when \<open>auth\<close> is absent or null. When \<open>auth\<close> is
  present, not null and not an object it emits one failing result. When \<open>auth\<close> is an
  object whose \<open>type\<close> is not a string of the auth-type set it emits one failing result
  whose message names the value. When the type is \<open>bearer\<close> or \<open>oauth2\<close> it emits one
  result, which passes exactly when \<open>instructions\<close> is a non-empty list and \<open>acquire\<close> and
  \<open>apply\<close> are objects.
\<close>

theorem auth_object_result:
  "(map_of (doc v) ''auth'' = None \<or> map_of (doc v) ''auth'' = Some JNull
      \<longrightarrow> check_auth_object R v = v)
   \<and> (\<forall>x. map_of (doc v) ''auth'' = Some x \<and> x \<noteq> JNull \<and> \<not> is_dict x
      \<longrightarrow> results (check_auth_object R v) =
            results v @
            [\<lparr>check_id = ''impl.auth_flow.structured_fields'',
              level = declared_level (check_defs v) ''impl.auth_flow.structured_fields'',
              passed = False, message = ''auth exists but is not an object''\<rparr>])
   \<and> (\<forall>a. map_of (doc v) ''auth'' = Some (JObj a)
            \<and> \<not> (\<exists>t. dict_get a ''type'' = JStr t \<and> t \<in> AUTH_TYPES)
      \<longrightarrow> results (check_auth_object R v) =
            results v @
            [\<lparr>check_id = ''impl.auth_flow.structured_fields'',
              level = declared_level (check_defs v) ''impl.auth_flow.structured_fields'',
              passed = False,
              message = ''auth.type invalid: '' @ py_str R (dict_get a ''type'')\<rparr>])
   \<and> (\<forall>a. map_of (doc v) ''auth'' = Some (JObj a)
            \<and> (dict_get a ''type'' = JStr ''bearer'' \<or> dict_get a ''type'' = JStr ''oauth2'')
      \<longrightarrow> (\<exists>r. results (check_auth_object R v) = results v @ [r]
               \<and> check_id r = ''impl.auth_flow.structured_fields''
               \<and> (passed r \<longleftrightarrow>
                    (\<exists>xs. dict_get a ''instructions'' = JList xs \<and> xs \<noteq> [])
                    \<and> is_dict (dict_get a ''acquire'')
                    \<and> is_dict (dict_get a ''apply''))))"
proof -
  have c1: "map_of (doc v) ''auth'' = None \<or> map_of (doc v) ''auth'' = Some JNull
      \<Longrightarrow> check_auth_object R v = v"
    by (auto simp: check_auth_object_def dict_get_def)
  have c2: "map_of (doc v) ''auth'' = Some x \<Longrightarrow> x \<noteq> JNull \<Longrightarrow> \<not> is_dict x
      \<Longrightarrow> results (check_auth_object R v) =
            results v @
            [\<lparr>check_id = ''impl.auth_flow.structured_fields'',
              level = declared_level (check_defs v) ''impl.auth_flow.structured_fields'',
              passed = False, message = ''auth exists but is not an object''\<rparr>]" for x
    by (cases x) (simp_all add: check_auth_object_def dict_get_def emit_results)
  have c3: "map_of (doc v) ''auth'' = Some (JObj a)
      \<Longrightarrow> \<not> (\<exists>t. dict_get a ''type'' = JStr t \<and> t \<in> AUTH_TYPES)
      \<Longrightarrow> results (check_auth_object R v) =
            results v @
            [\<lparr>check_id = ''impl.auth_flow.structured_fields'',
              level = declared_level (check_defs v) ''impl.auth_flow.structured_fields'',
              passed = False,
              message = ''auth.type invalid: '' @ py_str R (dict_get a ''type'')\<rparr>]" for a
    by (cases "dict_get a ''type''")
       (simp_all add: check_auth_object_def dict_get_def [of "doc v"] emit_results Let_def)
  have bf: "bearer_fields_ok a \<longleftrightarrow>
      (\<exists>xs. dict_get a ''instructions'' = JList xs \<and> xs \<noteq> [])
      \<and> is_dict (dict_get a ''acquire'') \<and> is_dict (dict_get a ''apply'')" for a
    by (cases "dict_get a ''instructions''") (simp_all add: bearer_fields_ok_def)
  have c4: "map_of (doc v) ''auth'' = Some (JObj a)
      \<Longrightarrow> dict_get a ''type'' = JStr ''bearer'' \<or> dict_get a ''type'' = JStr ''oauth2''
      \<Longrightarrow> \<exists>r. results (check_auth_object R v) = results v @ [r]
               \<and> check_id r = ''impl.auth_flow.structured_fields''
               \<and> (passed r \<longleftrightarrow>
                    (\<exists>xs. dict_get a ''instructions'' = JList xs \<and> xs \<noteq> [])
                    \<and> is_dict (dict_get a ''acquire'')
                    \<and> is_dict (dict_get a ''apply''))" for a
    by (auto simp: check_auth_object_def dict_get_def [of "doc v"] emit_results Let_def
        AUTH_TYPES_def bf)
  from c1 c2 c3 c4 show ?thesis by blast
qed

theorem auth_object_result_witness:
  "(\<exists>r. results (check_auth_object repr_sample
            \<lparr>doc = [(''auth'', JObj [(''type'', JStr ''bearer'')])],
             checklist = [], check_defs = Map.empty, results = []\<rparr>) = [r]
        \<and> check_id r = ''impl.auth_flow.structured_fields'' \<and> \<not> passed r)
   \<and> (\<exists>r. results (check_auth_object repr_sample
            \<lparr>doc = [(''auth'', JObj [(''type'', JStr ''bearer''),
                                     (''instructions'', JList [JStr ''get a token'']),
                                     (''acquire'', JObj []), (''apply'', JObj [])])],
             checklist = [], check_defs = Map.empty, results = []\<rparr>) = [r]
        \<and> check_id r = ''impl.auth_flow.structured_fields'' \<and> passed r)
   \<and> results (check_auth_object repr_sample
        \<lparr>doc = [(''auth'', JStr ''token'')], checklist = [], check_defs = Map.empty, results = []\<rparr>)
      = [\<lparr>check_id = ''impl.auth_flow.structured_fields'', level = JStr ''INFO'',
           passed = False, message = ''auth exists but is not an object''\<rparr>]
   \<and> results (check_auth_object repr_sample
        \<lparr>doc = [(''auth'', JObj [(''type'', JStr ''digest'')])],
         checklist = [], check_defs = Map.empty, results = []\<rparr>)
      = [\<lparr>check_id = ''impl.auth_flow.structured_fields'', level = JStr ''INFO'',
           passed = False, message = ''auth.type invalid: digest''\<rparr>]"
  using
    auth_object_result [of "\<lparr>doc = [(''auth'', JObj [(''type'', JStr ''bearer'')])],
             checklist = [], check_defs = Map.empty, results = []\<rparr>" repr_sample]
    auth_object_result [of "\<lparr>doc = [(''auth'', JObj [(''type'', JStr ''bearer''),
                                     (''instructions'', JList [JStr ''get a token'']),
                                     (''acquire'', JObj []), (''apply'', JObj [])])],
             checklist = [], check_defs = Map.empty, results = []\<rparr>" repr_sample]
    auth_object_result [of "\<lparr>doc = [(''auth'', JStr ''token'')], checklist = [],
             check_defs = Map.empty, results = []\<rparr>" repr_sample]
    auth_object_result [of "\<lparr>doc = [(''auth'', JObj [(''type'', JStr ''digest'')])],
         checklist = [], check_defs = Map.empty, results = []\<rparr>" repr_sample]
  by (simp add: dict_get_def declared_level_def AUTH_TYPES_def py_str_def)

text \<open>
  The claim as stated fails: with \<open>"auth": null\<close> the key is present and its value is
  not an object, and the rule emits nothing.
\<close>

theorem null_auth_emits_nothing:
  "dict_has [(''auth'', JNull)] ''auth''
   \<and> \<not> is_dict (dict_get [(''auth'', JNull)] ''auth'')
   \<and> results (check_auth_object repr_sample
        \<lparr>doc = [(''auth'', JNull)], checklist = [], check_defs = Map.empty, results = []\<rparr>) = []"
  by code_simp

section \<open>Rule 10\<close>

lemma constraint_params_loop_eq:
  "constraint_params_loop ps (t, c) =
     (t + int (length (param_objects ps)),
      c + int (length (filter has_constraint (param_objects ps))))"
proof (induction ps arbitrary: t c)
  case Nil
  show ?case by (simp add: param_objects_def)
next
  case (Cons p ps)
  have hc: "list_ex (\<lambda>field. dict_has pd field) CONSTRAINT_FIELDS = has_constraint pd" for pd
    by (simp add: CONSTRAINT_FIELDS_def has_constraint_def)
  show ?case
    by (cases p) (simp_all add: Cons.IH hc param_objects_def)
qed

lemma constraint_loop_eq:
  "constraint_loop eps (t, c) =
     (t + int (length (concat (map endpoint_params eps))),
      c + int (length (filter has_constraint (concat (map endpoint_params eps)))))"
proof (induction eps arbitrary: t c)
  case Nil
  show ?case by simp
next
  case (Cons ep eps)
  show ?case
  proof (cases ep)
    case (JObj e)
    show ?thesis
      by (cases "dict_get_or e ''params'' (JList [])")
         (simp_all add: JObj Cons.IH endpoint_params_def constraint_params_loop_eq)
  qed (simp_all add: Cons.IH endpoint_params_def)
qed

text \<open>
  C8. Rule 10 emits exactly one result. When no param is counted it passes with the
  message that publication is not applicable. Otherwise it passes exactly when some
  counted param declares one of the six constraint fields, and in either case the message
  starts with the number of constrained params, a slash and the number of counted params.
\<close>

theorem param_constraints_published_result:
  "\<exists>r. results (check_param_constraints_published v) = results v @ [r]
     \<and> check_id r = ''impl.params.constraints_published''
     \<and> (counted_params (doc v) = [] \<longrightarrow>
          passed r \<and> message r = ''no params defined; constraint publication not applicable'')
     \<and> (counted_params (doc v) \<noteq> [] \<longrightarrow>
          (passed r \<longleftrightarrow> (\<exists>p \<in> set (counted_params (doc v)). has_constraint p))
          \<and> message r =
              str_int (int (length (filter has_constraint (counted_params (doc v))))) @ ''/'' @
              str_int (int (length (counted_params (doc v)))) @
              '' params publish machine-readable constraints'')"
proof -
  let ?ps = "counted_params (doc v)"
  have loop: "constraint_loop (endpoints_of (doc v)) (0, 0) =
      (int (length ?ps), int (length (filter has_constraint ?ps)))"
    by (simp add: constraint_loop_eq counted_params_def)
  have pos: "0 < length (filter has_constraint ?ps) \<longleftrightarrow> (\<exists>p \<in> set ?ps. has_constraint p)"
    by (simp add: filter_empty_conv)
  show ?thesis
  proof (cases "?ps = []")
    case True
    then show ?thesis
      by (simp add: check_param_constraints_published_def loop emit_results)
  next
    case False
    then show ?thesis
      using pos by (simp add: check_param_constraints_published_def loop emit_results)
  qed
qed

theorem param_constraints_published_result_witness:
  "\<exists>r. results (check_param_constraints_published
           \<lparr>doc = [(''endpoints'', JList
                     [JObj [(''name'', JStr ''a''),
                            (''params'', JList [JObj [(''name'', JStr ''p1'')],
                                                JObj [(''name'', JStr ''p2'')],
                                                JObj [(''name'', JStr ''p3'')],
                                                JObj [(''name'', JStr ''p4''), (''pattern'', JStr ''x'')],
                                                JObj [(''name'', JStr ''p5'')]])],
                      JObj [(''name'', JStr ''b''),
                            (''params'', JList [JObj [(''name'', JStr ''q1'')],
                                                JObj [(''name'', JStr ''q2'')],
                                                JObj [(''name'', JStr ''q3'')],
                                                JObj [(''name'', JStr ''q4'')],
                                                JObj [(''name'', JStr ''q5'')]])]])],
            checklist = [], check_defs = Map.empty, results = []\<rparr>) = [r]
       \<and> passed r
       \<and> message r = ''1/10 params publish machine-readable constraints''"
proof -
  let ?v = "\<lparr>doc = [(''endpoints'', JList
                     [JObj [(''name'', JStr ''a''),
                            (''params'', JList [JObj [(''name'', JStr ''p1'')],
                                                JObj [(''name'', JStr ''p2'')],
                                                JObj [(''name'', JStr ''p3'')],
                                                JObj [(''name'', JStr ''p4''), (''pattern'', JStr ''x'')],
                                                JObj [(''name'', JStr ''p5'')]])],
                      JObj [(''name'', JStr ''b''),
                            (''params'', JList [JObj [(''name'', JStr ''q1'')],
                                                JObj [(''name'', JStr ''q2'')],
                                                JObj [(''name'', JStr ''q3'')],
                                                JObj [(''name'', JStr ''q4'')],
                                                JObj [(''name'', JStr ''q5'')]])]])],
            checklist = [], check_defs = Map.empty, results = []\<rparr>"
  have len: "length (counted_params (doc ?v)) = 10"
    by code_simp
  have con: "length (filter has_constraint (counted_params (doc ?v))) = 1"
    by code_simp
  have s1: "str_int 1 = ''1''" by code_simp
  have s10: "str_int 10 = ''10''" by code_simp
  from len have ne: "counted_params (doc ?v) \<noteq> []" by auto
  from con have ex: "\<exists>p \<in> set (counted_params (doc ?v)). has_constraint p"
    by (metis filter_False length_0_conv zero_neq_one)
  from param_constraints_published_result [of ?v] obtain r where
    r: "results (check_param_constraints_published ?v) = results ?v @ [r]"
    and p: "counted_params (doc ?v) \<noteq> [] \<longrightarrow>
          (passed r \<longleftrightarrow> (\<exists>p \<in> set (counted_params (doc ?v)). has_constraint p))
          \<and> message r =
              str_int (int (length (filter has_constraint (counted_params (doc ?v))))) @ ''/'' @
              str_int (int (length (counted_params (doc ?v)))) @
              '' params publish machine-readable constraints''"
    by blast
  from p ne ex have "passed r" by blast
  moreover from p ne have "message r = ''1/10 params publish machine-readable constraints''"
    unfolding len con by (simp add: s1 s10)
  moreover from r have "results (check_param_constraints_published ?v) = [r]" by simp
  ultimately show ?thesis by blast
qed

section \<open>Documents without an endpoint list\<close>

lemma endpoints_of_not_list:
  "map_of d ''endpoints'' = None \<or> (\<exists>x. map_of d ''endpoints'' = Some x \<and> \<not> is_list x)
     \<Longrightarrow> endpoints_of d = []"
  by (auto simp: endpoints_of_def dict_get_def split: json.splits)

lemma endpoints_of_with_empty [simp]: "endpoints_of (doc (with_empty_endpoints v)) = []"
  by (simp add: with_empty_endpoints_def endpoints_of_def dict_get_def)

lemma with_empty_frame [simp]:
  "check_defs (with_empty_endpoints v) = check_defs v"
  "results (with_empty_endpoints v) = results v"
  by (simp_all add: with_empty_endpoints_def)

lemma endpoint_uniqueness_empty:
  "endpoints_of (doc v) = [] \<Longrightarrow>
   check_endpoint_uniqueness R v =
     emit ''impl.method_path.unique'' True ''(method,path) pairs are unique''
       (emit ''impl.endpoint_name.unique'' True ''endpoint names are unique'' v)"
  by (simp add: check_endpoint_uniqueness_def)

lemma params_uniqueness_empty:
  "endpoints_of (doc v) = [] \<Longrightarrow>
   check_params_uniqueness R v =
     Inr (emit ''impl.params.unique_by_name_location'' True
            ''params are unique by (name,location)'' v)"
  by (simp add: check_params_uniqueness_def)

lemma method_values_empty:
  "endpoints_of (doc v) = [] \<Longrightarrow>
   check_method_values R v =
     (if check_defs v ''impl.endpoint.method.allowed'' \<noteq> None
      then emit ''impl.endpoint.method.allowed'' True ''all methods are allowed'' v
      else v)"
  by (simp add: check_method_values_def)

lemma param_locations_empty:
  "endpoints_of (doc v) = [] \<Longrightarrow>
   check_param_locations R v =
     Inr (if check_defs v ''impl.params.location.allowed'' \<noteq> None
          then emit ''impl.params.location.allowed'' True ''all parameter locations are valid'' v
          else v)"
  by (simp add: check_param_locations_def)

lemma auth_required_empty:
  "endpoints_of (doc v) = [] \<Longrightarrow>
   check_auth_required_presence R v =
     emit ''impl.endpoint.auth_required_supported'' True ''all endpoints include auth_required'' v"
  by (simp add: check_auth_required_presence_def)

lemma response_content_type_empty:
  "endpoints_of (doc v) = [] \<Longrightarrow>
   check_response_content_type_support R v =
     emit ''impl.endpoint.response_content_type_supported'' True
       ''all endpoints include response_content_type'' v"
  by (simp add: check_response_content_type_support_def)

lemma param_constraints_empty:
  "endpoints_of (doc v) = [] \<Longrightarrow>
   check_param_constraints_published v =
     emit ''impl.params.constraints_published'' True
       ''no params defined; constraint publication not applicable'' v"
  by (simp add: check_param_constraints_published_def)

lemma top_level_fails_without_list:
  "\<not> is_list (dict_get (doc v) ''endpoints'') \<Longrightarrow>
   \<not> passed (last (results (check_top_level_required_fields R v)))"
  by (simp add: check_top_level_required_fields_def Let_def emit_results)

text \<open>
  C10. When \<open>endpoints\<close> is absent or is not a list, each of the seven per-endpoint rules
  does what it does on the empty endpoint list: the two uniqueness results of rule 2 and
  the results of rules 3, 8 and 9 pass, rules 4 and 5 pass when their id is defined and
  are silent otherwise, rule 10 passes as not applicable, and every rule leaves the same
  results as on the same document with \<open>endpoints\<close> set to the empty list. Rule 1 fails.
\<close>

theorem no_endpoint_list_as_empty:
  assumes "map_of (doc v) ''endpoints'' = None
           \<or> (\<exists>x. map_of (doc v) ''endpoints'' = Some x \<and> \<not> is_list x)"
  shows
    "check_endpoint_uniqueness R v =
       emit ''impl.method_path.unique'' True ''(method,path) pairs are unique''
         (emit ''impl.endpoint_name.unique'' True ''endpoint names are unique'' v)
     \<and> check_params_uniqueness R v =
         Inr (emit ''impl.params.unique_by_name_location'' True
                ''params are unique by (name,location)'' v)
     \<and> check_method_values R v =
         (if check_defs v ''impl.endpoint.method.allowed'' \<noteq> None
          then emit ''impl.endpoint.method.allowed'' True ''all methods are allowed'' v
          else v)
     \<and> check_param_locations R v =
         Inr (if check_defs v ''impl.params.location.allowed'' \<noteq> None
              then emit ''impl.params.location.allowed'' True ''all parameter locations are valid'' v
              else v)
     \<and> check_auth_required_presence R v =
         emit ''impl.endpoint.auth_required_supported'' True ''all endpoints include auth_required'' v
     \<and> check_response_content_type_support R v =
         emit ''impl.endpoint.response_content_type_supported'' True
           ''all endpoints include response_content_type'' v
     \<and> check_param_constraints_published v =
         emit ''impl.params.constraints_published'' True
           ''no params defined; constraint publication not applicable'' v
     \<and> results (check_endpoint_uniqueness R v) =
         results (check_endpoint_uniqueness R (with_empty_endpoints v))
     \<and> map_sum id results (check_params_uniqueness R v) =
         map_sum id results (check_params_uniqueness R (with_empty_endpoints v))
     \<and> results (check_method_values R v) =
         results (check_method_values R (with_empty_endpoints v))
     \<and> map_sum id results (check_param_locations R v) =
         map_sum id results (check_param_locations R (with_empty_endpoints v))
     \<and> results (check_auth_required_presence R v) =
         results (check_auth_required_presence R (with_empty_endpoints v))
     \<and> results (check_response_content_type_support R v) =
         results (check_response_content_type_support R (with_empty_endpoints v))
     \<and> results (check_param_constraints_published v) =
         results (check_param_constraints_published (with_empty_endpoints v))
     \<and> \<not> passed (last (results (check_top_level_required_fields R v)))"
proof -
  from assms have e: "endpoints_of (doc v) = []"
    by (rule endpoints_of_not_list)
  have e': "endpoints_of (doc (with_empty_endpoints v)) = []"
    by simp
  from assms have nl: "\<not> is_list (dict_get (doc v) ''endpoints'')"
    by (auto simp: dict_get_def)
  have s1: "results (check_endpoint_uniqueness R v) =
         results (check_endpoint_uniqueness R (with_empty_endpoints v))"
    by (simp add: endpoint_uniqueness_empty [OF e] endpoint_uniqueness_empty [OF e'] emit_results)
  have s2: "map_sum id results (check_params_uniqueness R v) =
         map_sum id results (check_params_uniqueness R (with_empty_endpoints v))"
    by (simp add: params_uniqueness_empty [OF e] params_uniqueness_empty [OF e'] emit_results)
  have s3: "results (check_method_values R v) =
         results (check_method_values R (with_empty_endpoints v))"
    by (simp add: method_values_empty [OF e] method_values_empty [OF e'] emit_results)
  have s4: "map_sum id results (check_param_locations R v) =
         map_sum id results (check_param_locations R (with_empty_endpoints v))"
    by (simp add: param_locations_empty [OF e] param_locations_empty [OF e'] emit_results)
  have s5: "results (check_auth_required_presence R v) =
         results (check_auth_required_presence R (with_empty_endpoints v))"
    by (simp add: auth_required_empty [OF e] auth_required_empty [OF e'] emit_results)
  have s6: "results (check_response_content_type_support R v) =
         results (check_response_content_type_support R (with_empty_endpoints v))"
    by (simp add: response_content_type_empty [OF e] response_content_type_empty [OF e'] emit_results)
  have s7: "results (check_param_constraints_published v) =
         results (check_param_constraints_published (with_empty_endpoints v))"
    by (simp add: param_constraints_empty [OF e] param_constraints_empty [OF e'] emit_results)
  show ?thesis
    using endpoint_uniqueness_empty [OF e, of R] params_uniqueness_empty [OF e, of R]
      method_values_empty [OF e, of R] param_locations_empty [OF e, of R]
      auth_required_empty [OF e, of R] response_content_type_empty [OF e, of R]
      param_constraints_empty [OF e] s1 s2 s3 s4 s5 s6 s7
      top_level_fails_without_list [OF nl, of R]
    by (intro conjI) assumption+
qed

theorem no_endpoint_list_as_empty_witness:
  "results (check_endpoint_uniqueness repr_sample
      \<lparr>doc = [(''aiif_version'', JStr ''1.0''), (''info'', JObj []), (''endpoints'', JStr ''none'')],
       checklist = [], check_defs = Map.empty, results = []\<rparr>)
   = [\<lparr>check_id = ''impl.endpoint_name.unique'', level = JStr ''INFO'', passed = True,
        message = ''endpoint names are unique''\<rparr>,
      \<lparr>check_id = ''impl.method_path.unique'', level = JStr ''INFO'', passed = True,
        message = ''(method,path) pairs are unique''\<rparr>]
   \<and> results (check_param_constraints_published
      \<lparr>doc = [(''aiif_version'', JStr ''1.0''), (''info'', JObj []), (''endpoints'', JStr ''none'')],
       checklist = [], check_defs = Map.empty, results = []\<rparr>)
   = [\<lparr>check_id = ''impl.params.constraints_published'', level = JStr ''INFO'', passed = True,
        message = ''no params defined; constraint publication not applicable''\<rparr>]
   \<and> \<not> passed (last (results (check_top_level_required_fields repr_sample
      \<lparr>doc = [(''aiif_version'', JStr ''1.0''), (''info'', JObj []), (''endpoints'', JStr ''none'')],
       checklist = [], check_defs = Map.empty, results = []\<rparr>)))"
proof -
  let ?v = "\<lparr>doc = [(''aiif_version'', JStr ''1.0''), (''info'', JObj []), (''endpoints'', JStr ''none'')],
       checklist = [], check_defs = Map.empty, results = []\<rparr>"
  have h: "map_of (doc ?v) ''endpoints'' = None
           \<or> (\<exists>x. map_of (doc ?v) ''endpoints'' = Some x \<and> \<not> is_list x)"
    by simp
  show ?thesis
    using no_endpoint_list_as_empty [OF h, of repr_sample]
    by (simp add: emit_results declared_level_def)
qed

end
